theory Spec2Isabelle
  imports Complex_Main "HOL-Library.Log_Nat" "HOL-Library.Sublist" "HOL-Library.Multiset"
begin

section \<open>Values of the interpreter\<close>

text \<open>
  The server of \<^verbatim>\<open>web_server_ai.py\<close> shuffles parsed JSON between a chat model and
  three media providers. A parsed JSON document is a Python value built from \<^verbatim>\<open>None\<close>,
  \<^verbatim>\<open>bool\<close>, \<^verbatim>\<open>int\<close> (unbounded), \<^verbatim>\<open>float\<close> (an IEEE double; the parser also
  yields infinities and NaN), \<^verbatim>\<open>str\<close>, \<^verbatim>\<open>list\<close> and \<^verbatim>\<open>dict\<close> (string keys, in
  insertion order, kept here as an association list read by its first match).

  A finite double is represented by the rational number it denotes; the two zeros are one
  value. A character of a \<^typ>\<open>string\<close> stands for one code point below 256.
\<close>

datatype pyfloat = Finite rat | PosInf | NegInf | NaN

datatype json =
    JNull
  | JBool bool
  | JInt int
  | JFloat pyfloat
  | JStr string
  | JList "json list"
  | JDict "(string \<times> json) list"

text \<open>
  The exceptions the modelled code can meet. \<open>LibraryError\<close> stands for whatever the
  HTTP library, the JSON parser or the chat client raise (connection failures, decode
  errors, API errors); all of them derive from \<^verbatim>\<open>Exception\<close>.
\<close>

datatype py_exn =
    AttributeError
  | TypeError
  | KeyError
  | IndexError
  | ValueError
  | OverflowError
  | LibraryError string

text \<open>
  Values the handlers build. Text that the interpreter produces by formatting a value is
  kept symbolic: \<open>FStr\<close> is an f-string (literal pieces and formatted values, in order),
  \<open>StrExn e\<close> is \<^verbatim>\<open>str(e)\<close>, and \<open>JsonDumps v\<close> is \<^verbatim>\<open>json.dumps(v)\<close>.
\<close>

datatype fpart = Lit string | Fmt json

datatype pyval =
    Json json
  | FStr "fpart list"
  | StrExn py_exn
  | JsonDumps pyval
  | PList "pyval list"
  | PDict "(string \<times> pyval) list"

text \<open>Raising is a left injection; \<open>bnd\<close> sequences two computations.\<close>

fun bnd :: "py_exn + 'a \<Rightarrow> ('a \<Rightarrow> py_exn + 'b) \<Rightarrow> py_exn + 'b" where
  "bnd (Inl e) f = Inl e"
| "bnd (Inr x) f = f x"

subsection \<open>Double arithmetic\<close>

definition pow2 :: "int \<Rightarrow> rat" where
  "pow2 k = (if 0 \<le> k then 2 ^ nat k else 1 / 2 ^ nat (- k))"

text \<open>\<open>ilog2 x\<close> is the exponent \<open>e\<close> with \<open>2^e \<le> |x| < 2^(e+1)\<close>, for \<open>x \<noteq> 0\<close>.\<close>

definition ilog2 :: "rat \<Rightarrow> int" where
  "ilog2 x = (let (p, q) = quotient_of \<bar>x\<bar>;
                  k = int (floorlog 2 (nat p)) - int (floorlog 2 (nat q))
              in if pow2 k \<le> \<bar>x\<bar> then k else k - 1)"

definition round_half_even :: "rat \<Rightarrow> int" where
  "round_half_even x = (let f = \<lfloor>x\<rfloor>; d = x - of_int f
     in if d < 1 / 2 then f else if 1 / 2 < d then f + 1 else if even f then f else f + 1)"

text \<open>
  Rounding a rational to the nearest double, ties to even: 53 significant bits, the
  smallest quantum \<open>2^-1074\<close>, and an infinity from \<open>2^1024\<close> on.
\<close>

definition round_double :: "rat \<Rightarrow> pyfloat" where
  "round_double x = (if x = 0 then Finite 0 else
     let e = max (ilog2 x) (- 1022);
         u = pow2 (e - 52);
         r = of_int (round_half_even (x / u)) * u
     in if pow2 1024 \<le> \<bar>r\<bar> then (if 0 < x then PosInf else NegInf) else Finite r)"

fun fneg :: "pyfloat \<Rightarrow> pyfloat" where
  "fneg (Finite a) = Finite (- a)"
| "fneg PosInf = NegInf"
| "fneg NegInf = PosInf"
| "fneg NaN = NaN"

fun fmul :: "pyfloat \<Rightarrow> pyfloat \<Rightarrow> pyfloat" where
  "fmul (Finite a) (Finite b) = round_double (a * b)"
| "fmul NaN _ = NaN"
| "fmul _ NaN = NaN"
| "fmul (Finite a) b = (if a = 0 then NaN else if 0 < a then b else fneg b)"
| "fmul a (Finite b) = (if b = 0 then NaN else if 0 < b then a else fneg a)"
| "fmul PosInf PosInf = PosInf"
| "fmul NegInf NegInf = PosInf"
| "fmul PosInf NegInf = NegInf"
| "fmul NegInf PosInf = NegInf"

fun fadd :: "pyfloat \<Rightarrow> pyfloat \<Rightarrow> pyfloat" where
  "fadd (Finite a) (Finite b) = round_double (a + b)"
| "fadd NaN _ = NaN"
| "fadd _ NaN = NaN"
| "fadd (Finite a) b = b"
| "fadd a (Finite b) = a"
| "fadd PosInf PosInf = PosInf"
| "fadd NegInf NegInf = NegInf"
| "fadd PosInf NegInf = NaN"
| "fadd NegInf PosInf = NaN"

text \<open>\<^verbatim>\<open>float(n)\<close> for an \<^verbatim>\<open>int\<close>, as the mixed operators apply it.\<close>

definition float_of_int :: "int \<Rightarrow> py_exn + pyfloat" where
  "float_of_int n = (case round_double (of_int n) of
       Finite r \<Rightarrow> Inr (Finite r)
     | _ \<Rightarrow> Inl OverflowError)"

definition trunc :: "rat \<Rightarrow> int" where
  "trunc q = (if 0 \<le> q then \<lfloor>q\<rfloor> else \<lceil>q\<rceil>)"

text \<open>\<^verbatim>\<open>int(x)\<close> for a \<^verbatim>\<open>float\<close>.\<close>

fun int_of_float :: "pyfloat \<Rightarrow> py_exn + int" where
  "int_of_float (Finite q) = Inr (trunc q)"
| "int_of_float NaN = Inl ValueError"
| "int_of_float _ = Inl OverflowError"

definition int_of_bool :: "bool \<Rightarrow> int" where
  "int_of_bool b = (if b then 1 else 0)"

text \<open>\<^verbatim>\<open>x * c\<close> where \<open>c\<close> is a \<^verbatim>\<open>float\<close> literal.\<close>

fun mul_float :: "json \<Rightarrow> pyfloat \<Rightarrow> py_exn + pyfloat" where
  "mul_float (JBool b) c = Inr (fmul (Finite (of_int (int_of_bool b))) c)"
| "mul_float (JInt n) c = bnd (float_of_int n) (\<lambda>f. Inr (fmul f c))"
| "mul_float (JFloat f) c = Inr (fmul f c)"
| "mul_float _ c = Inl TypeError"

text \<open>\<^verbatim>\<open>x * c\<close> where \<open>c\<close> is an \<^verbatim>\<open>int\<close> literal; sequences are repeated.\<close>

fun mul_int :: "json \<Rightarrow> int \<Rightarrow> py_exn + json" where
  "mul_int (JBool b) c = Inr (JInt (int_of_bool b * c))"
| "mul_int (JInt n) c = Inr (JInt (n * c))"
| "mul_int (JFloat f) c = bnd (float_of_int c) (\<lambda>g. Inr (JFloat (fmul f g)))"
| "mul_int (JStr s) c = Inr (JStr (concat (replicate (nat c) s)))"
| "mul_int (JList xs) c = Inr (JList (concat (replicate (nat c) xs)))"
| "mul_int _ c = Inl TypeError"

text \<open>\<^verbatim>\<open>f + y\<close> where \<open>f\<close> is a \<^verbatim>\<open>float\<close>.\<close>

fun add_float :: "pyfloat \<Rightarrow> json \<Rightarrow> py_exn + pyfloat" where
  "add_float f (JBool b) = Inr (fadd f (Finite (of_int (int_of_bool b))))"
| "add_float f (JInt n) = bnd (float_of_int n) (\<lambda>g. Inr (fadd f g))"
| "add_float f (JFloat g) = Inr (fadd f g)"
| "add_float f _ = Inl TypeError"

text \<open>
  \<^verbatim>\<open>round(x, 1)\<close>: an \<^verbatim>\<open>int\<close> is returned as it is; a finite \<^verbatim>\<open>float\<close> is rounded to
  one decimal on its exact value, ties to even, and the decimal is read back as a double.
\<close>

fun round1 :: "json \<Rightarrow> py_exn + json" where
  "round1 (JBool b) = Inr (JInt (int_of_bool b))"
| "round1 (JInt n) = Inr (JInt n)"
| "round1 (JFloat (Finite q)) = Inr (JFloat (round_double (of_int (round_half_even (q * 10)) / 10)))"
| "round1 (JFloat f) = Inr (JFloat f)"
| "round1 _ = Inl TypeError"

subsection \<open>Dynamic operations on parsed JSON\<close>

fun truthy :: "json \<Rightarrow> bool" where
  "truthy JNull = False"
| "truthy (JBool b) = b"
| "truthy (JInt n) = (n \<noteq> 0)"
| "truthy (JFloat f) = (f \<noteq> Finite 0)"
| "truthy (JStr s) = (s \<noteq> [])"
| "truthy (JList xs) = (xs \<noteq> [])"
| "truthy (JDict kvs) = (kvs \<noteq> [])"

text \<open>\<^verbatim>\<open>x.get(k, dflt)\<close>: only a \<^verbatim>\<open>dict\<close> has the method.\<close>

fun dict_get :: "json \<Rightarrow> string \<Rightarrow> json \<Rightarrow> py_exn + json" where
  "dict_get (JDict kvs) k dflt = Inr (case map_of kvs k of Some v \<Rightarrow> v | None \<Rightarrow> dflt)"
| "dict_get _ k dflt = Inl AttributeError"

text \<open>\<^verbatim>\<open>x[k]\<close> with a string key.\<close>

fun getitem :: "json \<Rightarrow> string \<Rightarrow> py_exn + json" where
  "getitem (JDict kvs) k = (case map_of kvs k of Some v \<Rightarrow> Inr v | None \<Rightarrow> Inl KeyError)"
| "getitem _ k = Inl TypeError"

text \<open>The elements a \<^verbatim>\<open>for\<close> loop visits: a dict yields its keys, a string its characters.\<close>

fun iterate :: "json \<Rightarrow> py_exn + json list" where
  "iterate (JList xs) = Inr xs"
| "iterate (JDict kvs) = Inr (map (\<lambda>kv. JStr (fst kv)) kvs)"
| "iterate (JStr s) = Inr (map (\<lambda>c. JStr [c]) s)"
| "iterate _ = Inl TypeError"

text \<open>\<^verbatim>\<open>k in x\<close> for a string \<open>k\<close>.\<close>

fun contains_str :: "string \<Rightarrow> json \<Rightarrow> py_exn + bool" where
  "contains_str k (JDict kvs) = Inr (k \<in> set (map fst kvs))"
| "contains_str k (JList xs) = Inr (JStr k \<in> set xs)"
| "contains_str k (JStr s) = Inr (sublist k s)"
| "contains_str k _ = Inl TypeError"

text \<open>\<^verbatim>\<open>x[:n]\<close>; a dict cannot be sliced.\<close>

fun slice_to :: "json \<Rightarrow> nat \<Rightarrow> py_exn + json" where
  "slice_to (JStr s) n = Inr (JStr (take n s))"
| "slice_to (JList xs) n = Inr (JList (take n xs))"
| "slice_to _ n = Inl TypeError"

text \<open>\<^verbatim>\<open>x + lit\<close> where \<open>lit\<close> is a string literal.\<close>

fun concat_str :: "json \<Rightarrow> string \<Rightarrow> py_exn + json" where
  "concat_str (JStr s) lit = Inr (JStr (s @ lit))"
| "concat_str _ lit = Inl TypeError"

fun str_items :: "json list \<Rightarrow> py_exn + string list" where
  "str_items [] = Inr []"
| "str_items (JStr s # xs) = bnd (str_items xs) (\<lambda>ss. Inr (s # ss))"
| "str_items (_ # xs) = Inl TypeError"

fun intercalate :: "string \<Rightarrow> string list \<Rightarrow> string" where
  "intercalate sep [] = []"
| "intercalate sep [s] = s"
| "intercalate sep (s # t # ss) = s @ sep @ intercalate sep (t # ss)"

text \<open>\<^verbatim>\<open>sep.join(x)\<close>: every element must be a string.\<close>

definition str_join :: "string \<Rightarrow> json \<Rightarrow> py_exn + string" where
  "str_join sep x = bnd (iterate x) (\<lambda>xs. bnd (str_items xs) (\<lambda>ss. Inr (intercalate sep ss)))"

text \<open>\<^verbatim>\<open>str.lower\<close> on code points below 256: A-Z and the accented capitals move by 32.\<close>

definition lower_char :: "char \<Rightarrow> char" where
  "lower_char c = (let n = of_char c :: nat
     in if (65 \<le> n \<and> n \<le> 90) \<or> (192 \<le> n \<and> n \<le> 222 \<and> n \<noteq> 215) then char_of (n + 32) else c)"

definition lower :: "string \<Rightarrow> string" where
  "lower s = map lower_char s"

section \<open>The outside world\<close>

text \<open>
  What the handlers exchange with the chat model. A reply carries optional text and an
  optional list of tool invocations, each with an id, a function name and its arguments
  as JSON text.
\<close>

record tool_call =
  tc_id :: string
  tc_name :: string
  tc_arguments :: string

record assistant_message =
  content :: "string option"
  tool_calls :: "tool_call list option"

record chat_request =
  model :: string
  messages :: "pyval list"
  tools :: "pyval option"
  tool_choice :: "string option"

text \<open>
  Every external call either returns or raises; the world answers a call as a function of
  the request. \<open>http_get_json url params\<close> is \<^verbatim>\<open>requests.get(url, params=params)\<close>
  followed by \<^verbatim>\<open>response.json()\<close>; \<open>chat_create\<close> is
  \<^verbatim>\<open>client.chat.completions.create\<close>, returning the messages of the choices;
  \<open>json_loads\<close> is \<^verbatim>\<open>json.loads\<close>. \<open>YOUTUBE_API_KEY\<close> is read from the process
  environment and may be absent. \<open>system_prompt\<close> is the persona text of
  \<^verbatim>\<open>handle_chat\<close>, a fixed literal that is not reproduced here.
\<close>

record env =
  http_get_json :: "pyval \<Rightarrow> (string \<times> pyval) list \<Rightarrow> py_exn + json"
  chat_create :: "chat_request \<Rightarrow> py_exn + assistant_message list"
  json_loads :: "string \<Rightarrow> py_exn + json"
  YOUTUBE_API_KEY :: "string option"
  system_prompt :: string

text \<open>The external calls a handler makes, in order.\<close>

datatype call =
    HttpGet pyval "(string \<times> pyval) list"
  | ChatCompletion chat_request

text \<open>What the handler answers on the wire.\<close>

datatype http_reply =
    Reply200 pyval
  | Error400 string
  | Error500 py_exn

definition pstr :: "string \<Rightarrow> pyval" where
  "pstr s = Json (JStr s)"

definition opt_str :: "string option \<Rightarrow> pyval" where
  "opt_str x = (case x of None \<Rightarrow> Json JNull | Some s \<Rightarrow> pstr s)"

text \<open>\<^verbatim>\<open>{"error": str(e)}\<close>, the value every provider function returns from its handler.\<close>

definition error_dict :: "py_exn \<Rightarrow> pyval" where
  "error_dict e = PDict [(''error'', StrExn e)]"

definition catch :: "py_exn + pyval \<Rightarrow> pyval" where
  "catch r = (case r of Inl e \<Rightarrow> error_dict e | Inr v \<Rightarrow> v)"

section \<open>Content filter and description\<close>

text \<open>
  \<^verbatim>\<open>search_archive\<close> and \<^verbatim>\<open>curate_quality_movies\<close> repeat the same statements on each
  provider record: fetch the subject tags, wrap a lone string in a list, join the tags
  with spaces, lower-case the text and look for each keyword in it.
\<close>

definition adult_keywords :: "string list" where
  "adult_keywords = [''adult'', ''xxx'', ''erotica'', ''pornography'', ''erotic'']"

definition coerce_subjects :: "json \<Rightarrow> json" where
  "coerce_subjects subjects = (case subjects of JStr s \<Rightarrow> JList [JStr s] | _ \<Rightarrow> subjects)"

definition adult_match :: "json \<Rightarrow> py_exn + bool" where
  "adult_match subjects = bnd (str_join '' '' subjects) (\<lambda>joined.
     Inr (list_ex (\<lambda>keyword. sublist keyword (lower joined)) adult_keywords))"

text \<open>
  \<^verbatim>\<open>(d.get("description", dflt)[:200] + "...") if d.get("description") else
  "No description available"\<close>; the video search passes the empty string as \<open>dflt\<close>.
\<close>

definition description_field :: "json \<Rightarrow> string \<Rightarrow> py_exn + json" where
  "description_field d dflt = bnd (dict_get d ''description'' JNull) (\<lambda>c.
     if truthy c
     then bnd (dict_get d ''description'' (JStr dflt)) (\<lambda>v.
          bnd (slice_to v 200) (\<lambda>p. concat_str p ''...''))
     else Inr (JStr ''No description available''))"

section \<open>Archive search\<close>

definition advancedsearch_url :: pyval where
  "advancedsearch_url = pstr ''https://archive.org/advancedsearch.php''"

text \<open>The double-quote character that the provider's query syntax puts around tag values.\<close>

definition dq :: string where
  "dq = [CHR 0x22]"

definition exclusions :: string where
  "exclusions = ''mediatype:movies AND format:'' @ dq @ ''h.264'' @ dq
     @ '' AND -subject:'' @ dq @ ''adult'' @ dq
     @ '' AND -subject:'' @ dq @ ''erotica'' @ dq
     @ '' AND -subject:'' @ dq @ ''xxx'' @ dq"

definition search_archive_params :: "json \<Rightarrow> (string \<times> pyval) list" where
  "search_archive_params query =
    [(''q'', FStr [Lit ''('', Fmt query, Lit ('') AND '' @ exclusions)]),
     (''output'', pstr ''json''),
     (''rows'', Json (JInt 15)),
     (''sort'', pstr ''downloads desc''),
     (''fl'', pstr ''identifier,title,description,year,downloads,avg_rating,subject'')]"

text \<open>One pass of the loop body: \<open>None\<close> is \<^verbatim>\<open>continue\<close>, \<open>Some item\<close> is appended.\<close>

definition search_archive_item :: "json \<Rightarrow> py_exn + pyval option" where
  "search_archive_item d =
     bnd (dict_get d ''subject'' (JList [])) (\<lambda>subjects0.
     let subjects = coerce_subjects subjects0 in
     bnd (adult_match subjects) (\<lambda>adult.
     if adult then Inr None else
     bnd (dict_get d ''identifier'' JNull) (\<lambda>identifier.
     bnd (dict_get d ''title'' JNull) (\<lambda>title.
     bnd (description_field d ''No description available'') (\<lambda>description.
     bnd (dict_get d ''year'' JNull) (\<lambda>year.
     bnd (dict_get d ''downloads'' (JInt 0)) (\<lambda>downloads.
     bnd (dict_get d ''avg_rating'' (JInt 0)) (\<lambda>rating.
     bnd (round1 rating) (\<lambda>avg_rating.
     Inr (Some (PDict
       [(''identifier'', Json identifier),
        (''title'', Json title),
        (''description'', Json description),
        (''year'', Json year),
        (''downloads'', Json downloads),
        (''avg_rating'', Json avg_rating),
        (''thumbnail'', FStr [Lit ''https://archive.org/services/img/'', Fmt identifier]),
        (''watch_url'', FStr [Lit ''https://archive.org/details/'', Fmt identifier]),
        (''embed_url'', FStr [Lit ''https://archive.org/embed/'', Fmt identifier]),
        (''platform'', pstr ''Internet Archive''),
        (''platform_short'', pstr ''IA'')])))))))))))"

fun search_archive_loop :: "json list \<Rightarrow> pyval list \<Rightarrow> py_exn + pyval list" where
  "search_archive_loop [] results = Inr results"
| "search_archive_loop (d # ds) results =
     bnd (search_archive_item d) (\<lambda>r.
       case r of None \<Rightarrow> search_archive_loop ds results
               | Some item \<Rightarrow> search_archive_loop ds (results @ [item]))"

definition search_archive_try :: "env \<Rightarrow> json \<Rightarrow> py_exn + pyval" where
  "search_archive_try w query =
     bnd (http_get_json w advancedsearch_url (search_archive_params query)) (\<lambda>data.
     bnd (dict_get data ''response'' (JDict [])) (\<lambda>response.
     bnd (dict_get response ''docs'' (JList [])) (\<lambda>docs.
     bnd (iterate docs) (\<lambda>ds.
     bnd (search_archive_loop ds []) (\<lambda>results.
     Inr (PList results))))))"

definition search_archive :: "env \<Rightarrow> json \<Rightarrow> pyval" where
  "search_archive w query = catch (search_archive_try w query)"

section \<open>Item detail lookup\<close>

definition file_entry :: "json \<Rightarrow> json \<Rightarrow> py_exn + pyval" where
  "file_entry identifier f =
     bnd (dict_get f ''name'' JNull) (\<lambda>name.
     bnd (dict_get f ''format'' JNull) (\<lambda>format.
     bnd (dict_get f ''name'' JNull) (\<lambda>name'.
     Inr (PDict
       [(''name'', Json name),
        (''format'', Json format),
        (''url'', FStr [Lit ''https://archive.org/download/'', Fmt identifier, Lit ''/'', Fmt name'])]))))"

fun file_entries :: "json \<Rightarrow> json list \<Rightarrow> py_exn + pyval list" where
  "file_entries identifier [] = Inr []"
| "file_entries identifier (f # fs) =
     bnd (file_entry identifier f) (\<lambda>x.
     bnd (file_entries identifier fs) (\<lambda>xs. Inr (x # xs)))"

definition get_item_details_try :: "env \<Rightarrow> json \<Rightarrow> py_exn + pyval" where
  "get_item_details_try w identifier =
     bnd (http_get_json w (FStr [Lit ''https://archive.org/metadata/'', Fmt identifier]) []) (\<lambda>data.
     bnd (dict_get data ''metadata'' (JDict [])) (\<lambda>meta.
     bnd (dict_get data ''files'' (JList [])) (\<lambda>files.
     bnd (dict_get meta ''title'' JNull) (\<lambda>title.
     bnd (dict_get meta ''description'' JNull) (\<lambda>description.
     bnd (dict_get meta ''year'' JNull) (\<lambda>year.
     bnd (slice_to files 10) (\<lambda>first10.
     bnd (iterate first10) (\<lambda>fs.
     bnd (file_entries identifier fs) (\<lambda>entries.
     Inr (PDict
       [(''title'', Json title),
        (''description'', Json description),
        (''year'', Json year),
        (''files'', PList entries)]))))))))))"

definition get_item_details :: "env \<Rightarrow> json \<Rightarrow> pyval" where
  "get_item_details w identifier = catch (get_item_details_try w identifier)"

section \<open>Quality curation\<close>

definition curate_params :: "json \<Rightarrow> json \<Rightarrow> (string \<times> pyval) list" where
  "curate_params min_views limit =
    [(''q'', FStr [Lit (exclusions @ '' AND downloads:[''), Fmt min_views, Lit '' TO 999999999]'']),
     (''output'', pstr ''json''),
     (''rows'', Json limit),
     (''sort'', pstr ''downloads desc''),
     (''fl'', pstr ''identifier,title,description,year,downloads,num_reviews,avg_rating,subject'')]"

text \<open>
  \<^verbatim>\<open>(downloads * 0.5) + (num_reviews * 100) + (avg_rating * 1000)\<close>, left to right. The
  first product is a \<^verbatim>\<open>float\<close> whenever it is defined, so both sums are float sums.
\<close>

definition quality_score_expr :: "json \<Rightarrow> json \<Rightarrow> json \<Rightarrow> py_exn + pyfloat" where
  "quality_score_expr downloads num_reviews avg_rating =
     bnd (mul_float downloads (Finite (1 / 2))) (\<lambda>a.
     bnd (mul_int num_reviews 100) (\<lambda>b.
     bnd (add_float a b) (\<lambda>ab.
     bnd (mul_int avg_rating 1000) (\<lambda>c.
     add_float ab c))))"

definition curate_item :: "json \<Rightarrow> py_exn + pyval option" where
  "curate_item d =
     bnd (dict_get d ''subject'' (JList [])) (\<lambda>subjects0.
     let subjects = coerce_subjects subjects0 in
     bnd (adult_match subjects) (\<lambda>adult.
     if adult then Inr None else
     bnd (dict_get d ''downloads'' (JInt 0)) (\<lambda>downloads.
     bnd (dict_get d ''num_reviews'' (JInt 0)) (\<lambda>num_reviews.
     bnd (dict_get d ''avg_rating'' (JInt 0)) (\<lambda>avg_rating.
     bnd (quality_score_expr downloads num_reviews avg_rating) (\<lambda>quality_score.
     bnd (dict_get d ''identifier'' JNull) (\<lambda>identifier.
     bnd (dict_get d ''title'' JNull) (\<lambda>title.
     bnd (description_field d ''No description available'') (\<lambda>description.
     bnd (dict_get d ''year'' JNull) (\<lambda>year.
     bnd (if truthy avg_rating then round1 avg_rating else Inr (JInt 0)) (\<lambda>rounded.
     bnd (slice_to subjects 5) (\<lambda>first5.
     bnd (int_of_float quality_score) (\<lambda>score.
     Inr (Some (PDict
       [(''identifier'', Json identifier),
        (''title'', Json title),
        (''description'', Json description),
        (''year'', Json year),
        (''downloads'', Json downloads),
        (''num_reviews'', Json num_reviews),
        (''avg_rating'', Json rounded),
        (''subjects'', Json first5),
        (''quality_score'', Json (JInt score)),
        (''thumbnail'', FStr [Lit ''https://archive.org/services/img/'', Fmt identifier]),
        (''watch_url'', FStr [Lit ''https://archive.org/details/'', Fmt identifier]),
        (''embed_url'', FStr [Lit ''https://archive.org/embed/'', Fmt identifier]),
        (''platform'', pstr ''Internet Archive''),
        (''platform_short'', pstr ''IA'')])))))))))))))))"

fun curate_loop :: "json list \<Rightarrow> pyval list \<Rightarrow> py_exn + pyval list" where
  "curate_loop [] curated_movies = Inr curated_movies"
| "curate_loop (d # ds) curated_movies =
     bnd (curate_item d) (\<lambda>r.
       case r of None \<Rightarrow> curate_loop ds curated_movies
               | Some movie \<Rightarrow> curate_loop ds (curated_movies @ [movie]))"

text \<open>
  \<^verbatim>\<open>curated_movies.sort(key=lambda x: x['quality_score'], reverse=True)\<close>. The keys are
  computed first; the loop stores an \<^verbatim>\<open>int\<close> under that key in every movie, so the
  keys are compared as integers. The library sort is stable, and with \<^verbatim>\<open>reverse=True\<close>
  it still keeps equal keys in their original order; a stable sort has one result, given
  here by insertion into the list ordered by the negated key.
\<close>

fun quality_key :: "pyval \<Rightarrow> py_exn + int" where
  "quality_key (PDict kvs) = (case map_of kvs ''quality_score'' of
       None \<Rightarrow> Inl KeyError
     | Some (Json (JInt n)) \<Rightarrow> Inr n
     | Some _ \<Rightarrow> Inl TypeError)"
| "quality_key _ = Inl TypeError"

fun quality_keys :: "pyval list \<Rightarrow> py_exn + int list" where
  "quality_keys [] = Inr []"
| "quality_keys (m # ms) = bnd (quality_key m) (\<lambda>k. bnd (quality_keys ms) (\<lambda>ks. Inr (k # ks)))"

definition sort_by_quality :: "pyval list \<Rightarrow> py_exn + pyval list" where
  "sort_by_quality ms = bnd (quality_keys ms) (\<lambda>ks.
     Inr (map snd (sort_key (\<lambda>p. - fst p) (zip ks ms))))"

definition curate_quality_movies_try :: "env \<Rightarrow> json \<Rightarrow> json \<Rightarrow> py_exn + pyval" where
  "curate_quality_movies_try w min_views limit =
     bnd (http_get_json w advancedsearch_url (curate_params min_views limit)) (\<lambda>data.
     bnd (dict_get data ''response'' (JDict [])) (\<lambda>response.
     bnd (dict_get response ''docs'' (JList [])) (\<lambda>docs.
     bnd (iterate docs) (\<lambda>ds.
     bnd (curate_loop ds []) (\<lambda>curated_movies.
     bnd (sort_by_quality curated_movies) (\<lambda>sorted_movies.
     Inr (PList sorted_movies)))))))"

text \<open>An omitted argument (\<open>None\<close>) takes the default of the signature: 5000 and 20.\<close>

definition curate_quality_movies :: "env \<Rightarrow> json option \<Rightarrow> json option \<Rightarrow> pyval" where
  "curate_quality_movies w min_views limit =
     catch (curate_quality_movies_try w
       (case min_views of None \<Rightarrow> JInt 5000 | Some v \<Rightarrow> v)
       (case limit of None \<Rightarrow> JInt 20 | Some v \<Rightarrow> v))"

section \<open>Video platform search\<close>

definition youtube_url :: pyval where
  "youtube_url = pstr ''https://www.googleapis.com/youtube/v3/search''"

definition search_youtube_params :: "env \<Rightarrow> json \<Rightarrow> json \<Rightarrow> (string \<times> pyval) list" where
  "search_youtube_params w query max_results =
    [(''part'', pstr ''snippet''),
     (''q'', Json query),
     (''type'', pstr ''video''),
     (''maxResults'', Json max_results),
     (''key'', opt_str (YOUTUBE_API_KEY w))]"

definition youtube_item :: "json \<Rightarrow> py_exn + pyval" where
  "youtube_item item =
     bnd (getitem item ''id'') (\<lambda>ident.
     bnd (getitem ident ''videoId'') (\<lambda>video_id.
     bnd (getitem item ''snippet'') (\<lambda>snippet.
     bnd (dict_get snippet ''title'' JNull) (\<lambda>title.
     bnd (description_field snippet []) (\<lambda>description.
     bnd (dict_get snippet ''channelTitle'' JNull) (\<lambda>channel.
     bnd (dict_get snippet ''publishedAt'' JNull) (\<lambda>published_at.
     bnd (dict_get snippet ''thumbnails'' (JDict [])) (\<lambda>thumbnails.
     bnd (dict_get thumbnails ''high'' (JDict [])) (\<lambda>high.
     bnd (dict_get high ''url'' JNull) (\<lambda>thumbnail.
     Inr (PDict
       [(''identifier'', Json video_id),
        (''video_id'', Json video_id),
        (''title'', Json title),
        (''description'', Json description),
        (''channel'', Json channel),
        (''published_at'', Json published_at),
        (''thumbnail'', Json thumbnail),
        (''watch_url'', FStr [Lit ''https://www.youtube.com/watch?v='', Fmt video_id]),
        (''embed_url'', FStr [Lit ''https://www.youtube.com/embed/'', Fmt video_id]),
        (''platform'', pstr ''YouTube''),
        (''platform_short'', pstr ''YT'')])))))))))))"

fun youtube_loop :: "json list \<Rightarrow> pyval list \<Rightarrow> py_exn + pyval list" where
  "youtube_loop [] videos = Inr videos"
| "youtube_loop (item # items) videos =
     bnd (youtube_item item) (\<lambda>video. youtube_loop items (videos @ [video]))"

definition search_youtube_try :: "env \<Rightarrow> json \<Rightarrow> json \<Rightarrow> py_exn + pyval" where
  "search_youtube_try w query max_results =
     bnd (http_get_json w youtube_url (search_youtube_params w query max_results)) (\<lambda>data.
     bnd (contains_str ''error'' data) (\<lambda>failed.
     if failed
     then bnd (getitem data ''error'') (\<lambda>err.
          bnd (getitem err ''message'') (\<lambda>message.
          Inr (PDict [(''error'', Json message)])))
     else bnd (dict_get data ''items'' (JList [])) (\<lambda>items.
          bnd (iterate items) (\<lambda>its.
          bnd (youtube_loop its []) (\<lambda>videos.
          Inr (PList videos))))))"

definition search_youtube :: "env \<Rightarrow> json \<Rightarrow> json option \<Rightarrow> pyval" where
  "search_youtube w query max_results =
     catch (search_youtube_try w query (case max_results of None \<Rightarrow> JInt 10 | Some v \<Rightarrow> v))"

section \<open>Conversation orchestrator\<close>

text \<open>The tool catalogue sent with the first request.\<close>

definition function_tool :: "string \<Rightarrow> string \<Rightarrow> json \<Rightarrow> json" where
  "function_tool name description parameters =
     JDict [(''type'', JStr ''function''),
            (''function'', JDict [(''name'', JStr name),
                                  (''description'', JStr description),
                                  (''parameters'', parameters)])]"

definition property :: "string \<Rightarrow> string \<Rightarrow> json" where
  "property ty description = JDict [(''type'', JStr ty), (''description'', JStr description)]"

definition property_default :: "string \<Rightarrow> string \<Rightarrow> int \<Rightarrow> json" where
  "property_default ty description dflt =
     JDict [(''type'', JStr ty), (''description'', JStr description), (''default'', JInt dflt)]"

definition tool_catalogue :: json where
  "tool_catalogue = JList
    [function_tool ''search_archive''
       ''Search the Internet Archive for books, movies, audio, and other media''
       (JDict [(''type'', JStr ''object''),
               (''properties'', JDict [(''query'', property ''string'' ''The search query'')]),
               (''required'', JList [JStr ''query''])]),
     function_tool ''get_item_details''
       ''Get detailed information about a specific Internet Archive item including metadata and download links''
       (JDict [(''type'', JStr ''object''),
               (''properties'', JDict [(''identifier'',
                  property ''string'' ''The Internet Archive item identifier'')]),
               (''required'', JList [JStr ''identifier''])]),
     function_tool ''curate_quality_movies''
       ''Get a curated list of high-quality, family-friendly, license-free movies. Excludes adult content and filters by popularity, reviews, and ratings.''
       (JDict [(''type'', JStr ''object''),
               (''properties'', JDict
                 [(''min_views'', property_default ''integer''
                     ''Minimum number of views/downloads (default: 10000)'' 10000),
                  (''limit'', property_default ''integer''
                     ''Maximum number of movies to return (default: 20)'' 20)])]),
     function_tool ''search_youtube''
       ''Search YouTube for videos. Returns video titles, descriptions, channels, and embed URLs.''
       (JDict [(''type'', JStr ''object''),
               (''properties'', JDict
                 [(''query'', property ''string'' ''The search query for YouTube videos''),
                  (''max_results'', property_default ''integer''
                     ''Maximum number of results (default: 10)'' 10)]),
               (''required'', JList [JStr ''query''])])]"

text \<open>
  The \<^verbatim>\<open>if\<close>/\<^verbatim>\<open>elif\<close> chain on the function name. A provider function performs one
  GET, its first action, and never raises; the chain itself raises when a required
  argument is missing, before any call is made. The result is the calls made and the
  value bound to \<^verbatim>\<open>function_response\<close>.
\<close>

definition dispatch :: "env \<Rightarrow> string \<Rightarrow> json \<Rightarrow> py_exn + (call list \<times> pyval)" where
  "dispatch w function_name function_args =
    (if function_name = ''search_archive'' then
       bnd (getitem function_args ''query'') (\<lambda>query.
       Inr ([HttpGet advancedsearch_url (search_archive_params query)], search_archive w query))
     else if function_name = ''get_item_details'' then
       bnd (getitem function_args ''identifier'') (\<lambda>identifier.
       Inr ([HttpGet (FStr [Lit ''https://archive.org/metadata/'', Fmt identifier]) []],
            get_item_details w identifier))
     else if function_name = ''curate_quality_movies'' then
       bnd (dict_get function_args ''min_views'' (JInt 10000)) (\<lambda>min_views.
       bnd (dict_get function_args ''limit'' (JInt 20)) (\<lambda>limit.
       Inr ([HttpGet advancedsearch_url (curate_params min_views limit)],
            curate_quality_movies w (Some min_views) (Some limit))))
     else if function_name = ''search_youtube'' then
       bnd (getitem function_args ''query'') (\<lambda>query.
       bnd (dict_get function_args ''max_results'' (JInt 10)) (\<lambda>max_results.
       Inr ([HttpGet youtube_url (search_youtube_params w query max_results)],
            search_youtube w query (Some max_results))))
     else Inr ([], PDict [(''error'', pstr ''Unknown function'')]))"

text \<open>\<^verbatim>\<open>isinstance(x, list)\<close>.\<close>

fun is_list :: "pyval \<Rightarrow> bool" where
  "is_list (PList xs) = True"
| "is_list (Json (JList xs)) = True"
| "is_list _ = False"

definition gpt_model :: string where
  "gpt_model = ''gpt-4o-mini''"

text \<open>The two turns appended after a tool has run.\<close>

definition assistant_turn :: "assistant_message \<Rightarrow> tool_call \<Rightarrow> pyval" where
  "assistant_turn assistant_message tool_call = PDict
     [(''role'', pstr ''assistant''),
      (''content'', opt_str (content assistant_message)),
      (''tool_calls'', PList [PDict
         [(''id'', pstr (tc_id tool_call)),
          (''type'', pstr ''function''),
          (''function'', PDict [(''name'', pstr (tc_name tool_call)),
                                (''arguments'', pstr (tc_arguments tool_call))])]])]"

definition tool_turn :: "tool_call \<Rightarrow> pyval \<Rightarrow> pyval" where
  "tool_turn tool_call function_response = PDict
     [(''role'', pstr ''tool''),
      (''tool_call_id'', pstr (tc_id tool_call)),
      (''content'', JsonDumps function_response)]"

definition final_request :: "pyval list \<Rightarrow> chat_request" where
  "final_request msgs =
     \<lparr>model = gpt_model, messages = msgs, tools = None, tool_choice = None\<rparr>"

text \<open>
  The second model call and the result built from it: the text of the first choice, and
  the tool's value as \<^verbatim>\<open>data\<close> only when it is a list. An exception anywhere in the
  handler is answered with status 500.
\<close>

definition final_round :: "env \<Rightarrow> pyval list \<Rightarrow> pyval \<Rightarrow> call list \<times> http_reply" where
  "final_round w msgs function_response =
    ([ChatCompletion (final_request msgs)],
     (case chat_create w (final_request msgs) of
        Inl e \<Rightarrow> Error500 e
      | Inr [] \<Rightarrow> Error500 IndexError
      | Inr (final_message # _) \<Rightarrow> Reply200 (PDict
          [(''response'', opt_str (content final_message)),
           (''data'', if is_list function_response then function_response else Json JNull)])))"

text \<open>
  What follows the first reply: with tool invocations present, the first one is parsed,
  dispatched and fed back; without, the reply text is returned at once.
\<close>

definition after_first_reply :: "env \<Rightarrow> pyval list \<Rightarrow> assistant_message \<Rightarrow> call list \<times> http_reply" where
  "after_first_reply w msgs assistant_message =
    (case tool_calls assistant_message of
       Some (tool_call # _) \<Rightarrow>
         (case json_loads w (tc_arguments tool_call) of
            Inl e \<Rightarrow> ([], Error500 e)
          | Inr function_args \<Rightarrow>
             (case dispatch w (tc_name tool_call) function_args of
                Inl e \<Rightarrow> ([], Error500 e)
              | Inr (calls, function_response) \<Rightarrow>
                 (let (calls', reply) = final_round w
                        (msgs @ [assistant_turn assistant_message tool_call,
                                 tool_turn tool_call function_response])
                        function_response
                  in (calls @ calls', reply))))
     | _ \<Rightarrow> ([], Reply200 (PDict
          [(''response'', opt_str (content assistant_message)), (''data'', Json JNull)])))"

definition first_request :: "env \<Rightarrow> pyval list \<Rightarrow> chat_request" where
  "first_request w msgs =
     \<lparr>model = gpt_model, messages = msgs, tools = Some (Json tool_catalogue),
      tool_choice = Some ''auto''\<rparr>"

text \<open>
  \<^verbatim>\<open>handle_chat\<close> from the parsed request body on (\<open>body\<close> is the outcome of reading and
  parsing it). \<open>chat_messages\<close> is the part before the first model call: \<open>None\<close> is the
  rejection of an empty message. The history is any JSON value: when truthy it extends the
  message list by iteration.
\<close>

definition chat_messages :: "env \<Rightarrow> json \<Rightarrow> py_exn + pyval list option" where
  "chat_messages w data =
     bnd (dict_get data ''message'' (JStr [])) (\<lambda>user_message.
     bnd (dict_get data ''history'' (JList [])) (\<lambda>conversation_history.
     if \<not> truthy user_message then Inr None else
     bnd (if truthy conversation_history then iterate conversation_history else Inr []) (\<lambda>history.
     Inr (Some (PDict [(''role'', pstr ''system''), (''content'', pstr (system_prompt w))]
                # map Json history)))))"

definition handle_chat :: "env \<Rightarrow> py_exn + json \<Rightarrow> call list \<times> http_reply" where
  "handle_chat w body =
    (case bnd body (chat_messages w) of
       Inl e \<Rightarrow> ([], Error500 e)
     | Inr None \<Rightarrow> ([], Error400 ''Missing message'')
     | Inr (Some msgs) \<Rightarrow>
        (case chat_create w (first_request w msgs) of
           Inl e \<Rightarrow> ([ChatCompletion (first_request w msgs)], Error500 e)
         | Inr [] \<Rightarrow> ([ChatCompletion (first_request w msgs)], Error500 IndexError)
         | Inr (assistant_message # _) \<Rightarrow>
            (let (calls, reply) = after_first_reply w msgs assistant_message
             in (ChatCompletion (first_request w msgs) # calls, reply))))"

section \<open>Vocabulary of the properties\<close>

text \<open>The value stored under a key of a built dictionary.\<close>

fun field :: "pyval \<Rightarrow> string \<Rightarrow> pyval option" where
  "field (PDict kvs) k = map_of kvs k"
| "field _ k = None"

text \<open>
  A world whose provider and chat model give one answer to every request, for running the
  handlers on concrete inputs.
\<close>

definition fixed_world :: "(py_exn + json) \<Rightarrow> (py_exn + assistant_message list) \<Rightarrow> (py_exn + json) \<Rightarrow> env" where
  "fixed_world provider_reply chat_reply parsed =
     \<lparr>http_get_json = (\<lambda>url params. provider_reply),
      chat_create = (\<lambda>request. chat_reply),
      json_loads = (\<lambda>text. parsed),
      YOUTUBE_API_KEY = None,
      system_prompt = []\<rparr>"

text \<open>
  The records a reply of the archive provider holds, as both archive functions read them
  (\<^verbatim>\<open>data.get("response", {}).get("docs", [])\<close>, then iterated), and the text in which
  the filter looks for keywords: the subject tags of a record joined with spaces.
\<close>

definition docs_of :: "json \<Rightarrow> py_exn + json list" where
  "docs_of data = bnd (dict_get data ''response'' (JDict [])) (\<lambda>response.
     bnd (dict_get response ''docs'' (JList [])) iterate)"




text \<open>What one record contributes to the list a loop builds.\<close>

definition kept :: "(json \<Rightarrow> py_exn + pyval option) \<Rightarrow> json \<Rightarrow> pyval list" where
  "kept item_of d = (case item_of d of Inr (Some item) \<Rightarrow> [item] | _ \<Rightarrow> [])"


text \<open>
  A field of the item a loop body builds for a record (nothing when the record is skipped
  or the body raises), and the value of a key of a record with 0 standing for an absent
  key, as \<^verbatim>\<open>d.get(key, 0)\<close> reads it.
\<close>

definition item_field :: "py_exn + pyval option \<Rightarrow> string \<Rightarrow> pyval option" where
  "item_field r k = (case r of Inr (Some item) \<Rightarrow> field item k | _ \<Rightarrow> None)"

definition or_zero :: "(string \<times> json) list \<Rightarrow> string \<Rightarrow> json" where
  "or_zero kvs k = (case map_of kvs k of None \<Rightarrow> JInt 0 | Some v \<Rightarrow> v)"

section \<open>Basic facts\<close>

lemma bnd_eq_Inr: "bnd m f = Inr y \<longleftrightarrow> (\<exists>x. m = Inr x \<and> f x = Inr y)"
  by (cases m) auto

lemma round_double_zero [simp]: "round_double 0 = Finite 0"
  by (simp add: round_double_def)

lemma float_of_int_zero [simp]: "float_of_int 0 = Inr (Finite 0)"
  by (simp add: float_of_int_def)

lemma trunc_zero [simp]: "trunc 0 = 0"
  by (simp add: trunc_def)

section \<open>Doubles that are computed exactly\<close>

text \<open>
  A rational \<open>m * 2^k\<close> with \<open>|m| < 2^53\<close>, \<open>k \<ge> -1074\<close> and magnitude below \<open>2^1024\<close> is a
  double, and rounding leaves it as it is. Integers and halves of integers below
  \<open>2^53\<close> are of this kind.
\<close>

lemma pow2_powi: "pow2 k = 2 powi k"
  by (simp add: pow2_def power_int_def power_inverse inverse_eq_divide power_one_over)

lemma pow2_pos [simp]: "0 < pow2 k"
  by (simp add: pow2_powi)

lemma pow2_nonzero [simp]: "pow2 k \<noteq> 0"
  using pow2_pos [of k] by linarith

lemma pow2_add: "pow2 (a + b) = pow2 a * pow2 b"
  by (simp add: pow2_powi power_int_add)

lemma pow2_le: "a \<le> b \<Longrightarrow> pow2 a \<le> pow2 b"
  by (simp add: pow2_powi power_int_increasing)

lemma pow2_nat: "pow2 (int n) = 2 ^ n"
  by (simp add: pow2_def)

lemma ilog2_lower:
  assumes "x \<noteq> 0"
  shows "pow2 (ilog2 x) \<le> \<bar>x\<bar>"
proof -
  obtain p q where pq: "quotient_of \<bar>x\<bar> = (p, q)"
    by (cases "quotient_of \<bar>x\<bar>")
  then have q: "0 < q" and x: "\<bar>x\<bar> = of_int p / of_int q"
    by (rule quotient_of_denom_pos, rule quotient_of_div)
  from assms have "0 < \<bar>x\<bar>"
    by simp
  with x q have p: "0 < p"
    by (simp add: zero_less_divide_iff)
  define bp where "bp = floorlog 2 (nat p)"
  define bq where "bq = floorlog 2 (nat q)"
  have "2 ^ (bp - 1) \<le> nat p" and "nat q < 2 ^ bq"
    using floorlog_bounds [of "nat p" 2] floorlog_bounds [of "nat q" 2] p q
    by (simp_all add: bp_def bq_def)
  then have "(2::int) ^ (bp - 1) \<le> p" and "q \<le> (2::int) ^ bq"
    using p q by (simp_all add: le_nat_iff nat_less_iff)
  then have "(of_int (2 ^ (bp - 1)) :: rat) \<le> of_int p"
    and "(of_int q :: rat) \<le> of_int (2 ^ bq)"
    by (simp_all only: of_int_le_iff)
  then have 1: "(2::rat) ^ (bp - 1) \<le> of_int p" and 2: "of_int q \<le> (2::rat) ^ bq"
    by simp_all
  have bp: "1 \<le> bp"
    using p floorlog_eq_zero_iff [of 2 "nat p"] by (simp add: bp_def Suc_le_eq)
  have "pow2 (int bp - int bq - 1) = 2 ^ (bp - 1) / 2 ^ bq"
    using bp by (simp add: pow2_powi power_int_diff of_nat_diff flip: power_int_of_nat)
  also have "\<dots> \<le> of_int p / of_int q"
    using 1 2 p q by (intro frac_le) simp_all
  finally have "pow2 (int bp - int bq - 1) \<le> \<bar>x\<bar>"
    using x by simp
  then show ?thesis
    unfolding ilog2_def pq by (simp add: Let_def bp_def bq_def)
qed

lemma ilog2_less:
  assumes "x \<noteq> 0" and "\<bar>x\<bar> < pow2 j"
  shows "ilog2 x < j"
proof (rule ccontr)
  assume "\<not> ilog2 x < j"
  then have "pow2 j \<le> pow2 (ilog2 x)"
    by (simp add: pow2_le)
  with ilog2_lower [OF assms(1)] assms(2) show False
    by linarith
qed

lemma round_half_even_of_int [simp]: "round_half_even (of_int z) = z"
  by (simp add: round_half_even_def)

lemma round_double_exact:
  assumes x: "x = of_int m * pow2 k" and m: "\<bar>m\<bar> < 2 ^ 53" and k: "- 1074 \<le> k"
    and fin: "\<bar>x\<bar> < pow2 1024"
  shows "round_double x = Finite x"
proof (cases "x = 0")
  case True
  then show ?thesis by (simp add: round_double_def)
next
  case False
  define e where "e = max (ilog2 x) (- 1022)"
  from m have "(of_int \<bar>m\<bar> :: rat) < of_int (2 ^ 53)"
    by (simp only: of_int_less_iff)
  then have "\<bar>of_int m :: rat\<bar> < pow2 53"
    by (simp add: pow2_def)
  then have "\<bar>of_int m :: rat\<bar> * pow2 k < pow2 53 * pow2 k"
    by (intro mult_strict_right_mono) simp_all
  then have "\<bar>x\<bar> < pow2 53 * pow2 k"
    unfolding x by (simp add: abs_mult abs_of_pos)
  then have "\<bar>x\<bar> < pow2 (k + 53)"
    by (simp add: pow2_add mult.commute)
  with False have "ilog2 x < k + 53"
    by (rule ilog2_less)
  with k have e: "e - 52 \<le> k"
    unfolding e_def by simp
  define j where "j = nat (k - (e - 52))"
  have "k = (e - 52) + int j"
    using e by (simp add: j_def)
  then have "pow2 k = pow2 (e - 52) * 2 ^ j"
    by (simp add: pow2_add pow2_nat)
  then have "x / pow2 (e - 52) = of_int (m * 2 ^ j)"
    unfolding x by simp
  then have "round_half_even (x / pow2 (e - 52)) = m * 2 ^ j"
    by (simp only: round_half_even_of_int)
  then have "of_int (round_half_even (x / pow2 (e - 52))) * pow2 (e - 52) = x"
    by (simp add: x \<open>pow2 k = pow2 (e - 52) * 2 ^ j\<close>)
  then show ?thesis
    unfolding round_double_def using False fin by (simp add: Let_def e_def)
qed

lemma round_double_of_int:
  assumes "\<bar>n\<bar> < 2 ^ 53"
  shows "round_double (of_int n) = Finite (of_int n)"
proof (rule round_double_exact [of _ n 0])
  from assms have "(of_int \<bar>n\<bar> :: rat) < of_int (2 ^ 53)"
    by (simp only: of_int_less_iff)
  then have "\<bar>of_int n :: rat\<bar> < pow2 53"
    by (simp add: pow2_def)
  also have "pow2 53 \<le> pow2 1024"
    by (rule pow2_le) simp
  finally show "\<bar>of_int n :: rat\<bar> < pow2 1024" .
qed (use assms in \<open>simp_all add: pow2_def\<close>)

lemma round_double_half:
  assumes "\<bar>n\<bar> < 2 ^ 53"
  shows "round_double (of_int n / 2) = Finite (of_int n / 2)"
proof (rule round_double_exact [of _ n "- 1"])
  from assms have "(of_int \<bar>n\<bar> :: rat) < of_int (2 ^ 53)"
    by (simp only: of_int_less_iff)
  then have "\<bar>of_int n / 2 :: rat\<bar> < pow2 53"
    by (simp add: pow2_def)
  also have "pow2 53 \<le> pow2 1024"
    by (rule pow2_le) simp
  finally show "\<bar>of_int n / 2 :: rat\<bar> < pow2 1024" .
qed (use assms in \<open>simp_all add: pow2_def\<close>)

lemma float_of_int_exact:
  "\<bar>n\<bar> < 2 ^ 53 \<Longrightarrow> float_of_int n = Inr (Finite (of_int n))"
  by (simp add: float_of_int_def round_double_of_int)

section \<open>Description of a normalized item\<close>








section \<open>Dispatch and the second model call\<close>

lemma catch_shape:
  "(\<And>v. r = Inr v \<Longrightarrow> P v) \<Longrightarrow> (\<And>e. P (error_dict e)) \<Longrightarrow> P (catch r)"
  by (cases r) (auto simp: catch_def)

lemma search_archive_shape:
  "(\<exists>e. search_archive w q = error_dict e) \<or> (\<exists>xs. search_archive w q = PList xs)"
  unfolding search_archive_def
  by (rule catch_shape) (auto simp: search_archive_try_def bnd_eq_Inr)

lemma get_item_details_shape:
  "(\<exists>e. get_item_details w i = error_dict e) \<or> (\<exists>kvs. get_item_details w i = PDict kvs)"
  unfolding get_item_details_def
  by (rule catch_shape) (auto simp: get_item_details_try_def bnd_eq_Inr)

lemma curate_quality_movies_shape:
  "(\<exists>e. curate_quality_movies w mv lmt = error_dict e)
     \<or> (\<exists>xs. curate_quality_movies w mv lmt = PList xs)"
  unfolding curate_quality_movies_def
  by (rule catch_shape) (auto simp: curate_quality_movies_try_def bnd_eq_Inr)

lemma search_youtube_shape:
  "(\<exists>e. search_youtube w q m = error_dict e)
     \<or> (\<exists>v. search_youtube w q m = PDict [(''error'', Json v)])
     \<or> (\<exists>xs. search_youtube w q m = PList xs)"
  unfolding search_youtube_def
  by (rule catch_shape) (auto simp: search_youtube_try_def bnd_eq_Inr split: if_splits)

lemma dispatch_unknown:
  "function_name \<notin> {''search_archive'', ''get_item_details'', ''curate_quality_movies'',
      ''search_youtube''} \<Longrightarrow>
   dispatch w function_name function_args
     = Inr ([], PDict [(''error'', pstr ''Unknown function'')])"
  by (simp add: dispatch_def)

lemma assistant_turn_update [simp]:
  "assistant_turn (am\<lparr>tool_calls := x\<rparr>) tc = assistant_turn am tc"
  by (simp add: assistant_turn_def)

lemma after_first_reply_tool:
  "tool_calls am = Some (tc # rest) \<Longrightarrow> json_loads w (tc_arguments tc) = Inr args \<Longrightarrow>
   dispatch w (tc_name tc) args = Inr (calls, fr) \<Longrightarrow>
   after_first_reply w msgs am
     = (calls @ [ChatCompletion (final_request (msgs @ [assistant_turn am tc, tool_turn tc fr]))],
        snd (final_round w (msgs @ [assistant_turn am tc, tool_turn tc fr]) fr))"
  by (simp add: after_first_reply_def final_round_def)

lemma opt_str_case:
  "opt_str x = (case x of None \<Rightarrow> Json JNull | Some s \<Rightarrow> Json (JStr s))"
  by (cases x) (simp_all add: opt_str_def pstr_def)

text \<open>
  C5, amended. A function name outside the four tools makes the chain return the
  dictionary \<^verbatim>\<open>{"error": "Unknown function"}\<close> without raising and without a provider
  call. When that name comes in the first invocation of a reply and the arguments of the
  invocation parse as JSON, the handler goes on: its only call is the second request to
  the model, for the same model, without tools, whose messages are the earlier ones
  followed by the assistant turn and by the tool turn that carries the serialized
  dictionary under the id of the invocation; the handler answers with the text of that
  second reply and \<^verbatim>\<open>data\<close> null, or with status 500 when the second call fails.
\<close>

theorem unknown_function_continues:
  assumes "function_name \<notin> {''search_archive'', ''get_item_details'',
             ''curate_quality_movies'', ''search_youtube''}"
  shows "dispatch w function_name function_args
           = Inr ([], PDict [(''error'', Json (JStr ''Unknown function''))])
       \<and> (tool_calls am = Some (tc # rest) \<and> tc_name tc = function_name
            \<and> json_loads w (tc_arguments tc) = Inr function_args \<longrightarrow>
          (let request =
             \<lparr>model = ''gpt-4o-mini'',
              messages = msgs @
                [PDict [(''role'', Json (JStr ''assistant'')),
                        (''content'', (case content am of None \<Rightarrow> Json JNull
                                         | Some s \<Rightarrow> Json (JStr s))),
                        (''tool_calls'', PList [PDict
                           [(''id'', Json (JStr (tc_id tc))),
                            (''type'', Json (JStr ''function'')),
                            (''function'', PDict
                               [(''name'', Json (JStr function_name)),
                                (''arguments'', Json (JStr (tc_arguments tc)))])]])],
                 PDict [(''role'', Json (JStr ''tool'')),
                        (''tool_call_id'', Json (JStr (tc_id tc))),
                        (''content'',
                           JsonDumps (PDict [(''error'', Json (JStr ''Unknown function''))]))]],
              tools = None,
              tool_choice = None\<rparr>
           in fst (after_first_reply w msgs am) = [ChatCompletion request]
            \<and> snd (after_first_reply w msgs am)
                = (case chat_create w request of
                     Inl e \<Rightarrow> Error500 e
                   | Inr [] \<Rightarrow> Error500 IndexError
                   | Inr (final_message # _) \<Rightarrow> Reply200 (PDict
                       [(''response'', (case content final_message of None \<Rightarrow> Json JNull
                                          | Some s \<Rightarrow> Json (JStr s))),
                        (''data'', Json JNull)]))))"
proof -
  let ?u = "PDict [(''error'', Json (JStr ''Unknown function''))]"
  have d: "dispatch w function_name function_args = Inr ([], ?u)"
    using dispatch_unknown [OF assms] by (simp add: pstr_def)
  have "after_first_reply w msgs am
      = ([ChatCompletion (final_request (msgs @ [assistant_turn am tc, tool_turn tc ?u]))],
         snd (final_round w (msgs @ [assistant_turn am tc, tool_turn tc ?u]) ?u))"
    if "tool_calls am = Some (tc # rest)" and "tc_name tc = function_name"
      and "json_loads w (tc_arguments tc) = Inr function_args"
    using after_first_reply_tool [OF that(1) that(3), of "[]" ?u msgs] d that(2) by simp
  then show ?thesis
    using d
    by (auto simp: final_round_def final_request_def assistant_turn_def tool_turn_def
        gpt_model_def pstr_def opt_str_case Let_def split: sum.splits list.splits)
qed

theorem unknown_function_continues_witness:
  "after_first_reply
     (fixed_world (Inl (LibraryError ''unreachable''))
        (Inr [\<lparr>content = Some ''Sorry, I cannot do that.'', tool_calls = None\<rparr>])
        (Inr (JDict [])))
     []
     \<lparr>content = None,
      tool_calls = Some [\<lparr>tc_id = ''call_1'', tc_name = ''play_movie'', tc_arguments = ''{}''\<rparr>]\<rparr>
   = ([ChatCompletion
         \<lparr>model = ''gpt-4o-mini'',
          messages =
            [PDict [(''role'', Json (JStr ''assistant'')),
                    (''content'', Json JNull),
                    (''tool_calls'', PList [PDict
                       [(''id'', Json (JStr ''call_1'')),
                        (''type'', Json (JStr ''function'')),
                        (''function'', PDict [(''name'', Json (JStr ''play_movie'')),
                                              (''arguments'', Json (JStr ''{}''))])]])],
             PDict [(''role'', Json (JStr ''tool'')),
                    (''tool_call_id'', Json (JStr ''call_1'')),
                    (''content'',
                       JsonDumps (PDict [(''error'', Json (JStr ''Unknown function''))]))]],
          tools = None,
          tool_choice = None\<rparr>],
      Reply200 (PDict [(''response'', Json (JStr ''Sorry, I cannot do that.'')),
                       (''data'', Json JNull)]))"
proof -
  let ?w = "fixed_world (Inl (LibraryError ''unreachable''))
        (Inr [\<lparr>content = Some ''Sorry, I cannot do that.'', tool_calls = None\<rparr>])
        (Inr (JDict []))"
  let ?tc = "\<lparr>tc_id = ''call_1'', tc_name = ''play_movie'', tc_arguments = ''{}''\<rparr>"
  let ?am = "\<lparr>content = None, tool_calls = Some [?tc]\<rparr>"
  have "''play_movie'' \<notin> {''search_archive'', ''get_item_details'',
             ''curate_quality_movies'', ''search_youtube''}"
    by simp
  from unknown_function_continues [OF this, of ?w "JDict []" ?am ?tc "[]" "[]"]
  show ?thesis
    by (simp add: fixed_world_def prod_eq_iff Let_def)
qed

text \<open>
  The arguments are parsed before the chain is entered. An invocation with an unknown
  name whose arguments do not parse makes the handler answer with status 500, and no
  second request is made.
\<close>

theorem unknown_function_unparsed_counterexample:
  "''play_movie'' \<notin> {''search_archive'', ''get_item_details'', ''curate_quality_movies'',
      ''search_youtube''}
   \<and> after_first_reply
       (fixed_world (Inl (LibraryError ''unreachable''))
          (Inr [\<lparr>content = Some ''Sorry, I cannot do that.'', tool_calls = None\<rparr>])
          (Inl ValueError))
       []
       \<lparr>content = None,
        tool_calls = Some [\<lparr>tc_id = ''call_1'', tc_name = ''play_movie'',
                             tc_arguments = ''{''\<rparr>]\<rparr>
     = ([], Error500 ValueError)"
  by (simp add: after_first_reply_def fixed_world_def)

text \<open>
  C7. When a reply carries several tool invocations, the handler behaves as if it carried
  the first alone: the same calls are made and the same answer is given. With arguments
  that parse and a chain that returns, the calls are those of the first invocation, at
  most one provider request, followed by the second request to the model.
\<close>

theorem only_first_tool_call:
  assumes "tool_calls am = Some (tc # rest)"
  shows "after_first_reply w msgs am = after_first_reply w msgs (am\<lparr>tool_calls := Some [tc]\<rparr>)
       \<and> (json_loads w (tc_arguments tc) = Inr args
            \<and> dispatch w (tc_name tc) args = Inr (calls, fr) \<longrightarrow>
          fst (after_first_reply w msgs am)
            = calls @ [ChatCompletion (final_request (msgs @
                 [assistant_turn am tc, tool_turn tc fr]))]
          \<and> length calls \<le> 1)"
proof -
  have "after_first_reply w msgs am = after_first_reply w msgs (am\<lparr>tool_calls := Some [tc]\<rparr>)"
    using assms by (simp add: after_first_reply_def split: sum.splits prod.splits)
  moreover have "length calls \<le> 1" if "dispatch w (tc_name tc) args = Inr (calls, fr)"
    using that by (auto simp: dispatch_def bnd_eq_Inr split: if_splits)
  ultimately show ?thesis
    using after_first_reply_tool [OF assms, of w args calls fr msgs] by simp
qed

theorem only_first_tool_call_witness:
  "after_first_reply
     (fixed_world (Inr (JDict [])) (Inr [\<lparr>content = Some ''Here you go.'', tool_calls = None\<rparr>])
        (Inr (JDict [(''query'', JStr ''noir'')])))
     []
     \<lparr>content = None,
      tool_calls = Some [\<lparr>tc_id = ''call_1'', tc_name = ''search_archive'', tc_arguments = ''a''\<rparr>,
                         \<lparr>tc_id = ''call_2'', tc_name = ''search_youtube'', tc_arguments = ''b''\<rparr>]\<rparr>
   = after_first_reply
     (fixed_world (Inr (JDict [])) (Inr [\<lparr>content = Some ''Here you go.'', tool_calls = None\<rparr>])
        (Inr (JDict [(''query'', JStr ''noir'')])))
     []
     \<lparr>content = None,
      tool_calls = Some [\<lparr>tc_id = ''call_1'', tc_name = ''search_archive'', tc_arguments = ''a''\<rparr>]\<rparr>
   \<and> fst (after_first_reply
     (fixed_world (Inr (JDict [])) (Inr [\<lparr>content = Some ''Here you go.'', tool_calls = None\<rparr>])
        (Inr (JDict [(''query'', JStr ''noir'')])))
     []
     \<lparr>content = None,
      tool_calls = Some [\<lparr>tc_id = ''call_1'', tc_name = ''search_archive'', tc_arguments = ''a''\<rparr>,
                         \<lparr>tc_id = ''call_2'', tc_name = ''search_youtube'', tc_arguments = ''b''\<rparr>]\<rparr>)
   = [HttpGet advancedsearch_url (search_archive_params (JStr ''noir'')),
      ChatCompletion (final_request
        [assistant_turn \<lparr>content = None, tool_calls = None\<rparr>
           \<lparr>tc_id = ''call_1'', tc_name = ''search_archive'', tc_arguments = ''a''\<rparr>,
         tool_turn \<lparr>tc_id = ''call_1'', tc_name = ''search_archive'', tc_arguments = ''a''\<rparr>
           (PList [])])]"
proof -
  let ?w = "fixed_world (Inr (JDict []))
        (Inr [\<lparr>content = Some ''Here you go.'', tool_calls = None\<rparr>])
        (Inr (JDict [(''query'', JStr ''noir'')]))"
  let ?tc = "\<lparr>tc_id = ''call_1'', tc_name = ''search_archive'', tc_arguments = ''a''\<rparr>"
  let ?tc' = "\<lparr>tc_id = ''call_2'', tc_name = ''search_youtube'', tc_arguments = ''b''\<rparr>"
  let ?am = "\<lparr>content = None, tool_calls = Some [?tc, ?tc']\<rparr>"
  have s: "search_archive ?w (JStr ''noir'') = PList []"
    by (simp add: search_archive_def search_archive_try_def fixed_world_def catch_def)
  have d: "dispatch ?w (tc_name ?tc) (JDict [(''query'', JStr ''noir'')])
      = Inr ([HttpGet advancedsearch_url (search_archive_params (JStr ''noir''))], PList [])"
    using s by (simp add: dispatch_def)
  have "tool_calls ?am = Some (?tc # [?tc'])"
    by simp
  from only_first_tool_call [OF this, of ?w "[]" "JDict [(''query'', JStr ''noir'')]"
      "[HttpGet advancedsearch_url (search_archive_params (JStr ''noir''))]" "PList []"] d
  show ?thesis
    by (auto simp: fixed_world_def assistant_turn_def)
qed

section \<open>The data field and the curation defaults\<close>

lemma dispatch_shape:
  assumes "dispatch w function_name function_args = Inr (calls, fr)"
  shows "(\<exists>xs. fr = PList xs) \<or> (\<exists>kvs. fr = PDict kvs)"
proof -
  consider (archive) q where "fr = search_archive w q"
    | (details) i where "fr = get_item_details w i"
    | (curate) mv lmt where "fr = curate_quality_movies w mv lmt"
    | (youtube) q m where "fr = search_youtube w q m"
    | (unknown) "fr = PDict [(''error'', pstr ''Unknown function'')]"
    using assms by (auto simp: dispatch_def bnd_eq_Inr split: if_splits)
  then show ?thesis
  proof cases
    case archive
    with search_archive_shape [of w q] show ?thesis by (auto simp: error_dict_def)
  next
    case details
    with get_item_details_shape [of w i] show ?thesis by (auto simp: error_dict_def)
  next
    case curate
    with curate_quality_movies_shape [of w mv lmt] show ?thesis by (auto simp: error_dict_def)
  next
    case youtube
    with search_youtube_shape [of w q m] show ?thesis by (auto simp: error_dict_def)
  next
    case unknown
    then show ?thesis by simp
  qed
qed

text \<open>
  C8. Once the first invocation has been dispatched and the second model call has
  returned, the answer carries the text of the second reply, and its \<^verbatim>\<open>data\<close> is the
  tool's value when that value is a list and null otherwise. A dispatched value is a list
  or a dictionary; the item details and every error value are dictionaries, so they give
  null.
\<close>

theorem data_is_list_or_null:
  assumes "tool_calls am = Some (tc # rest)"
      and "json_loads w (tc_arguments tc) = Inr args"
      and "dispatch w (tc_name tc) args = Inr (calls, fr)"
      and "chat_create w (final_request (msgs @ [assistant_turn am tc, tool_turn tc fr]))
             = Inr (final_message # others)"
  shows "snd (after_first_reply w msgs am)
           = Reply200 (PDict [(''response'', opt_str (content final_message)),
                              (''data'', if is_list fr then fr else Json JNull)])
       \<and> (is_list fr \<longleftrightarrow> (\<exists>xs. fr = PList xs))
       \<and> (\<not> is_list fr \<longleftrightarrow> (\<exists>kvs. fr = PDict kvs))
       \<and> \<not> is_list (get_item_details w ident)
       \<and> \<not> is_list (error_dict e)
       \<and> \<not> is_list (PDict [(''error'', v)])"
proof -
  have "snd (after_first_reply w msgs am)
           = Reply200 (PDict [(''response'', opt_str (content final_message)),
                              (''data'', if is_list fr then fr else Json JNull)])"
    using after_first_reply_tool [OF assms(1,2,3), of msgs] assms(4)
    by (simp add: final_round_def)
  moreover have "\<not> is_list (get_item_details w ident)"
    using get_item_details_shape [of w ident] by (auto simp: error_dict_def)
  moreover have "(is_list fr \<longleftrightarrow> (\<exists>xs. fr = PList xs))"
      "(\<not> is_list fr \<longleftrightarrow> (\<exists>kvs. fr = PDict kvs))"
    using dispatch_shape [OF assms(3)] by auto
  ultimately show ?thesis
    by (simp add: error_dict_def)
qed

theorem data_is_list_or_null_witness:
  "snd (after_first_reply
     (fixed_world (Inl (LibraryError ''connection refused''))
        (Inr [\<lparr>content = Some ''The archive is unreachable.'', tool_calls = None\<rparr>])
        (Inr (JDict [(''identifier'', JStr ''nosferatu'')])))
     []
     \<lparr>content = None,
      tool_calls = Some [\<lparr>tc_id = ''call_1'', tc_name = ''get_item_details'',
                           tc_arguments = ''a''\<rparr>]\<rparr>)
   = Reply200 (PDict [(''response'', pstr ''The archive is unreachable.''),
                      (''data'', Json JNull)])"
proof -
  let ?w = "fixed_world (Inl (LibraryError ''connection refused''))
        (Inr [\<lparr>content = Some ''The archive is unreachable.'', tool_calls = None\<rparr>])
        (Inr (JDict [(''identifier'', JStr ''nosferatu'')]))"
  let ?tc = "\<lparr>tc_id = ''call_1'', tc_name = ''get_item_details'', tc_arguments = ''a''\<rparr>"
  let ?am = "\<lparr>content = None, tool_calls = Some [?tc]\<rparr>"
  let ?fr = "error_dict (LibraryError ''connection refused'')"
  let ?calls = "[HttpGet (FStr [Lit ''https://archive.org/metadata/'', Fmt (JStr ''nosferatu'')]) []]"
  let ?fm = "\<lparr>content = Some ''The archive is unreachable.'', tool_calls = None\<rparr>"
  have 1: "tool_calls ?am = Some (?tc # [])"
    by simp
  have 2: "json_loads ?w (tc_arguments ?tc) = Inr (JDict [(''identifier'', JStr ''nosferatu'')])"
    by (simp add: fixed_world_def)
  have 3: "dispatch ?w (tc_name ?tc) (JDict [(''identifier'', JStr ''nosferatu'')])
      = Inr (?calls, ?fr)"
    by (simp add: dispatch_def get_item_details_def get_item_details_try_def fixed_world_def
        catch_def)
  have 4: "chat_create ?w (final_request ([] @ [assistant_turn ?am ?tc, tool_turn ?tc ?fr]))
      = Inr (?fm # [])"
    by (simp add: fixed_world_def)
  from data_is_list_or_null [OF 1 2 3 4] show ?thesis
    by (simp add: error_dict_def opt_str_def)
qed

text \<open>
  C9. On the chat path the handler looks both arguments up in the parsed arguments and
  falls back to 10000 for \<^verbatim>\<open>min_views\<close> and to 20 for \<^verbatim>\<open>limit\<close>, so the curation
  function always receives explicit values from it. Called without arguments, the
  function takes the defaults of its signature, 5000 and 20, and the two minimum counts
  give different provider queries.
\<close>

theorem curation_defaults:
  "dispatch w ''curate_quality_movies'' (JDict args)
     = Inr ([HttpGet advancedsearch_url
               (curate_params
                  (case map_of args ''min_views'' of None \<Rightarrow> JInt 10000 | Some v \<Rightarrow> v)
                  (case map_of args ''limit'' of None \<Rightarrow> JInt 20 | Some v \<Rightarrow> v))],
            curate_quality_movies w
              (Some (case map_of args ''min_views'' of None \<Rightarrow> JInt 10000 | Some v \<Rightarrow> v))
              (Some (case map_of args ''limit'' of None \<Rightarrow> JInt 20 | Some v \<Rightarrow> v)))
   \<and> curate_quality_movies w None None
     = curate_quality_movies w (Some (JInt 5000)) (Some (JInt 20))
   \<and> curate_quality_movies w None None
     = catch (curate_quality_movies_try w (JInt 5000) (JInt 20))
   \<and> curate_params (JInt 5000) (JInt 20) \<noteq> curate_params (JInt 10000) (JInt 20)"
  by (simp add: dispatch_def curate_quality_movies_def curate_params_def)

section \<open>String-valued subjects\<close>

lemma coerce_subjects_str [simp]:
  "coerce_subjects (JStr s) = JList [JStr s]"
  "coerce_subjects (JList xs) = JList xs"
  by (simp_all add: coerce_subjects_def)

lemma str_join_single [simp]: "str_join sep (JList [JStr s]) = Inr s"
  by (simp add: str_join_def)

text \<open>
  C10. Two records that differ only in that one gives the subject as a string and the
  other as the list holding that string produce the same outcome in both loops: the same
  exclusion, the same item or the same exception. The filter then looks for the keywords
  in the lower-cased string itself, and a curated movie lists that one tag.
\<close>

theorem string_subject_as_list:
  assumes "map_of kvs ''subject'' = Some (JStr s)"
      and "map_of kvs' ''subject'' = Some (JList [JStr s])"
      and "\<forall>k. k \<noteq> ''subject'' \<longrightarrow> map_of kvs' k = map_of kvs k"
  shows "search_archive_item (JDict kvs') = search_archive_item (JDict kvs)
       \<and> curate_item (JDict kvs') = curate_item (JDict kvs)
       \<and> adult_match (coerce_subjects (JStr s))
            = Inr (list_ex (\<lambda>keyword. sublist keyword (lower s)) adult_keywords)
       \<and> (curate_item (JDict kvs) = Inr (Some movie) \<longrightarrow>
            field movie ''subjects'' = Some (Json (JList [JStr s])))"
proof -
  have g: "dict_get (JDict kvs') k dflt = dict_get (JDict kvs) k dflt" if "k \<noteq> ''subject''"
    for k dflt
    using assms(3) that by simp
  have d: "description_field (JDict kvs') dflt = description_field (JDict kvs) dflt" for dflt
    by (simp add: description_field_def assms(3))
  have "search_archive_item (JDict kvs') = search_archive_item (JDict kvs)"
    unfolding search_archive_item_def d by (simp add: assms cong: if_cong)
  moreover have "curate_item (JDict kvs') = curate_item (JDict kvs)"
    unfolding curate_item_def d by (simp add: assms cong: if_cong)
  moreover have "field movie ''subjects'' = Some (Json (JList [JStr s]))"
    if "curate_item (JDict kvs) = Inr (Some movie)"
    using that assms(1) by (auto simp: curate_item_def bnd_eq_Inr Let_def split: if_splits)
  ultimately show ?thesis
    by (simp add: adult_match_def)
qed

theorem string_subject_as_list_witness:
  "search_archive_item (JDict [(''subject'', JList [JStr ''Horror'']), (''title'', JStr ''Nosferatu'')])
     = search_archive_item (JDict [(''subject'', JStr ''Horror''), (''title'', JStr ''Nosferatu'')])
   \<and> curate_item (JDict [(''subject'', JList [JStr ''Horror'']), (''title'', JStr ''Nosferatu'')])
     = curate_item (JDict [(''subject'', JStr ''Horror''), (''title'', JStr ''Nosferatu'')])"
  using string_subject_as_list
    [of "[(''subject'', JStr ''Horror''), (''title'', JStr ''Nosferatu'')]" "''Horror''"
        "[(''subject'', JList [JStr ''Horror'']), (''title'', JStr ''Nosferatu'')]"]
  by simp

section \<open>Provider failures\<close>

lemma catch_Inl: "r = Inl e \<Longrightarrow> catch r = error_dict e"
  by (simp add: catch_def)

lemma not_dict_get: "\<forall>kvs. data \<noteq> JDict kvs \<Longrightarrow> dict_get data k dflt = Inl AttributeError"
  by (cases data) auto

text \<open>
  C6. Each of the four provider functions turns a failure into the dictionary
  \<^verbatim>\<open>{"error": str(e)}\<close>: when the request or the decoding of its reply raises \<open>e\<close>, when
  anything in its body raises \<open>e\<close>, and in particular when the reply is not a JSON object.
  The video search also answers a reply that has the key \<^verbatim>\<open>error\<close> with an error
  dictionary, whatever else the reply holds: the provider's message when the reply has
  one, the text of the lookup failure otherwise.
\<close>

theorem provider_failures_in_band:
  "(http_get_json w advancedsearch_url (search_archive_params q) = Inl e \<longrightarrow>
      search_archive w q = error_dict e)
 \<and> (http_get_json w (FStr [Lit ''https://archive.org/metadata/'', Fmt ident]) [] = Inl e \<longrightarrow>
      get_item_details w ident = error_dict e)
 \<and> (http_get_json w advancedsearch_url (curate_params mv lmt) = Inl e \<longrightarrow>
      curate_quality_movies w (Some mv) (Some lmt) = error_dict e)
 \<and> (http_get_json w youtube_url (search_youtube_params w q m) = Inl e \<longrightarrow>
      search_youtube w q (Some m) = error_dict e)
 \<and> (search_archive_try w q = Inl e \<longrightarrow> search_archive w q = error_dict e)
 \<and> (get_item_details_try w ident = Inl e \<longrightarrow> get_item_details w ident = error_dict e)
 \<and> (curate_quality_movies_try w mv lmt = Inl e \<longrightarrow>
      curate_quality_movies w (Some mv) (Some lmt) = error_dict e)
 \<and> (search_youtube_try w q m = Inl e \<longrightarrow> search_youtube w q (Some m) = error_dict e)
 \<and> ((\<forall>kvs. data \<noteq> JDict kvs) \<longrightarrow>
      (http_get_json w advancedsearch_url (search_archive_params q) = Inr data \<longrightarrow>
         search_archive w q = error_dict AttributeError)
    \<and> (http_get_json w (FStr [Lit ''https://archive.org/metadata/'', Fmt ident]) [] = Inr data \<longrightarrow>
         get_item_details w ident = error_dict AttributeError)
    \<and> (http_get_json w advancedsearch_url (curate_params mv lmt) = Inr data \<longrightarrow>
         curate_quality_movies w (Some mv) (Some lmt) = error_dict AttributeError)
    \<and> (http_get_json w youtube_url (search_youtube_params w q m) = Inr data \<longrightarrow>
         search_youtube w q (Some m) = error_dict AttributeError
       \<or> search_youtube w q (Some m) = error_dict TypeError))
 \<and> (http_get_json w youtube_url (search_youtube_params w q m) = Inr (JDict kvs)
      \<and> ''error'' \<in> fst ` set kvs \<longrightarrow>
      (\<exists>v. search_youtube w q (Some m) = PDict [(''error'', v)])
    \<and> (\<forall>err message. map_of kvs ''error'' = Some err \<and> getitem err ''message'' = Inr message
          \<longrightarrow> search_youtube w q (Some m) = PDict [(''error'', Json message)]))"
proof -
  have a: "search_archive_try w q = Inl e \<Longrightarrow> search_archive w q = error_dict e"
    by (simp add: search_archive_def catch_Inl)
  have b: "get_item_details_try w ident = Inl e \<Longrightarrow> get_item_details w ident = error_dict e"
    by (simp add: get_item_details_def catch_Inl)
  have c: "curate_quality_movies_try w mv lmt = Inl e \<Longrightarrow>
      curate_quality_movies w (Some mv) (Some lmt) = error_dict e"
    by (simp add: curate_quality_movies_def catch_Inl)
  have d: "search_youtube_try w q m = Inl e \<Longrightarrow> search_youtube w q (Some m) = error_dict e"
    by (simp add: search_youtube_def catch_Inl)
  have a': "search_archive w q = error_dict e"
    if "http_get_json w advancedsearch_url (search_archive_params q) = Inl e"
    using that by (simp add: search_archive_def search_archive_try_def catch_Inl)
  have b': "get_item_details w ident = error_dict e"
    if "http_get_json w (FStr [Lit ''https://archive.org/metadata/'', Fmt ident]) [] = Inl e"
    using that by (simp add: get_item_details_def get_item_details_try_def catch_Inl)
  have c': "curate_quality_movies w (Some mv) (Some lmt) = error_dict e"
    if "http_get_json w advancedsearch_url (curate_params mv lmt) = Inl e"
    using that by (simp add: curate_quality_movies_def curate_quality_movies_try_def catch_Inl)
  have d': "search_youtube w q (Some m) = error_dict e"
    if "http_get_json w youtube_url (search_youtube_params w q m) = Inl e"
    using that by (simp add: search_youtube_def search_youtube_try_def catch_Inl)
  have m: "(http_get_json w advancedsearch_url (search_archive_params q) = Inr data \<longrightarrow>
         search_archive w q = error_dict AttributeError)
    \<and> (http_get_json w (FStr [Lit ''https://archive.org/metadata/'', Fmt ident]) [] = Inr data \<longrightarrow>
         get_item_details w ident = error_dict AttributeError)
    \<and> (http_get_json w advancedsearch_url (curate_params mv lmt) = Inr data \<longrightarrow>
         curate_quality_movies w (Some mv) (Some lmt) = error_dict AttributeError)
    \<and> (http_get_json w youtube_url (search_youtube_params w q m) = Inr data \<longrightarrow>
         search_youtube w q (Some m) = error_dict AttributeError
       \<or> search_youtube w q (Some m) = error_dict TypeError)"
    if nd: "\<forall>kvs. data \<noteq> JDict kvs"
  proof -
    have "search_youtube w q (Some m) = error_dict AttributeError
       \<or> search_youtube w q (Some m) = error_dict TypeError"
      if "http_get_json w youtube_url (search_youtube_params w q m) = Inr data"
      using that nd
      by (cases data) (auto simp: search_youtube_def search_youtube_try_def catch_def)
    then show ?thesis
      by (simp add: search_archive_def search_archive_try_def get_item_details_def
          get_item_details_try_def curate_quality_movies_def curate_quality_movies_try_def
          not_dict_get [OF nd] catch_def)
  qed
  have y: "(\<exists>v. search_youtube w q (Some m) = PDict [(''error'', v)])
    \<and> (\<forall>err message. map_of kvs ''error'' = Some err \<and> getitem err ''message'' = Inr message
          \<longrightarrow> search_youtube w q (Some m) = PDict [(''error'', Json message)])"
    if h1: "http_get_json w youtube_url (search_youtube_params w q m) = Inr (JDict kvs)"
      and h2: "''error'' \<in> fst ` set kvs"
  proof -
    obtain err where err: "map_of kvs ''error'' = Some err"
      using h2 by (metis map_of_eq_None_iff not_Some_eq)
    show ?thesis
      using h1 h2 err
      by (cases "getitem err ''message''")
         (auto simp: search_youtube_def search_youtube_try_def catch_def error_dict_def)
  qed
  from a b c d a' b' c' d' m y show ?thesis
    by blast
qed

theorem provider_failures_in_band_witness:
  "search_archive (fixed_world (Inl (LibraryError ''timed out'')) (Inr []) (Inr JNull)) (JStr ''noir'')
     = PDict [(''error'', StrExn (LibraryError ''timed out''))]
   \<and> search_youtube
       (fixed_world (Inr (JDict [(''error'', JDict [(''message'', JStr ''quota exceeded'')])]))
          (Inr []) (Inr JNull))
       (JStr ''noir'') (Some (JInt 10))
     = PDict [(''error'', Json (JStr ''quota exceeded''))]
   \<and> curate_quality_movies (fixed_world (Inr (JList [])) (Inr []) (Inr JNull))
       (Some (JInt 10000)) (Some (JInt 20))
     = PDict [(''error'', StrExn AttributeError)]"
proof -
  let ?w = "fixed_world (Inl (LibraryError ''timed out'')) (Inr []) (Inr JNull)"
  let ?kvs = "[(''error'', JDict [(''message'', JStr ''quota exceeded'')])]"
  let ?w' = "fixed_world (Inr (JDict ?kvs)) (Inr []) (Inr JNull)"
  let ?w'' = "fixed_world (Inr (JList [])) (Inr []) (Inr JNull)"
  have "search_archive ?w (JStr ''noir'') = PDict [(''error'', StrExn (LibraryError ''timed out''))]"
    using provider_failures_in_band [of ?w "JStr ''noir''" "LibraryError ''timed out''"]
    by (simp add: fixed_world_def error_dict_def)
  moreover have "search_youtube ?w' (JStr ''noir'') (Some (JInt 10))
     = PDict [(''error'', Json (JStr ''quota exceeded''))]"
    using provider_failures_in_band [of ?w' "JStr ''noir''" _ _ _ _ "JInt 10" _ ?kvs]
    by (simp add: fixed_world_def)
  moreover have "curate_quality_movies ?w'' (Some (JInt 10000)) (Some (JInt 20))
     = PDict [(''error'', StrExn AttributeError)]"
    using provider_failures_in_band [of ?w'' _ _ _ "JInt 10000" "JInt 20" _ "JList []"]
    by (simp add: fixed_world_def error_dict_def)
  ultimately show ?thesis
    by blast
qed

section \<open>Content filter\<close>



lemma length_lower [simp]: "length (lower s) = length s"
  by (simp add: lower_def)








lemma curate_loop_kept:
  "curate_loop ds acc = Inr results \<Longrightarrow>
   results = acc @ concat (map (kept curate_item) ds)
     \<and> (\<forall>d\<in>set ds. \<exists>r. curate_item d = Inr r)"
proof (induction ds arbitrary: acc)
  case Nil
  then show ?case by simp
next
  case (Cons d ds)
  then obtain r where r: "curate_item d = Inr r"
    by (auto simp: bnd_eq_Inr)
  show ?case
  proof (cases r)
    case None
    with Cons r show ?thesis by (simp add: kept_def)
  next
    case (Some item)
    with Cons.prems r have "curate_loop ds (acc @ [item]) = Inr results"
      by simp
    from Cons.IH [OF this] r Some show ?thesis
      by (simp add: kept_def)
  qed
qed








lemma quality_keys_all2:
  "quality_keys ms = Inr ks \<Longrightarrow> list_all2 (\<lambda>k m. quality_key m = Inr k) ks ms"
  by (induction ms arbitrary: ks) (auto simp: bnd_eq_Inr)

lemma sort_by_quality_mset:
  assumes "sort_by_quality ms = Inr rs"
  shows "mset rs = mset ms"
proof -
  from assms obtain ks where ks: "quality_keys ms = Inr ks"
      and rs: "rs = map snd (sort_key (\<lambda>p. - fst p) (zip ks ms))"
    by (auto simp: sort_by_quality_def bnd_eq_Inr)
  from quality_keys_all2 [OF ks] have "length ks = length ms"
    by (rule list_all2_lengthD)
  then have "map snd (zip ks ms) = ms"
    by simp
  moreover have "mset (map snd (sort_key (\<lambda>p. - fst p) (zip ks ms))) = mset (map snd (zip ks ms))"
    by (simp only: mset_map mset_sort)
  ultimately show ?thesis
    unfolding rs by simp
qed

lemma catch_PList: "catch r = PList xs \<Longrightarrow> r = Inr (PList xs)"
  by (cases r) (simp_all add: catch_def error_dict_def)


lemma curate_quality_movies_results:
  assumes "docs_of data = Inr ds"
      and "http_get_json w advancedsearch_url (curate_params mv lmt) = Inr data"
      and "curate_quality_movies w (Some mv) (Some lmt) = PList results"
  shows "\<exists>unsorted. curate_loop ds [] = Inr unsorted \<and> sort_by_quality unsorted = Inr results"
proof -
  from assms(3) have "curate_quality_movies_try w mv lmt = Inr (PList results)"
    unfolding curate_quality_movies_def by (simp add: catch_PList)
  with assms(1,2) show ?thesis
    by (auto simp: curate_quality_movies_try_def docs_of_def bnd_eq_Inr)
qed



section \<open>Quality score\<close>

lemma quality_score_expr_exact:
  assumes "\<bar>d\<bar> \<le> 2 ^ 40" and "\<bar>r\<bar> \<le> 2 ^ 40" and "\<bar>n\<bar> \<le> 2 ^ 40"
  shows "quality_score_expr (JInt d) (JInt r) (JFloat (Finite (of_int n / 2)))
           = Inr (Finite (of_int (d + 200 * r + 1000 * n) / 2))"
    and "quality_score_expr (JInt d) (JInt r) (JInt n)
           = Inr (Finite (of_int (d + 200 * r + 2000 * n) / 2))"
proof -
  have b: "\<bar>d\<bar> < 2 ^ 53" "\<bar>r * 100\<bar> < 2 ^ 53" "\<bar>d + 200 * r\<bar> < 2 ^ 53"
    "\<bar>n * 500\<bar> < 2 ^ 53" "\<bar>n * 1000\<bar> < 2 ^ 53" "\<bar>d + 200 * r + 1000 * n\<bar> < 2 ^ 53"
    "\<bar>d + 200 * r + 2000 * n\<bar> < 2 ^ 53"
    using assms by simp_all
  have e: "of_int d * (1 / 2) = (of_int d :: rat) / 2"
    "of_int d / 2 + of_int (r * 100) = (of_int (d + 200 * r) :: rat) / 2"
    "of_int n / 2 * of_int 1000 = (of_int (n * 500) :: rat)"
    "of_int (d + 200 * r) / 2 + of_int (n * 500) = (of_int (d + 200 * r + 1000 * n) :: rat) / 2"
    "of_int (d + 200 * r) / 2 + of_int (n * 1000) = (of_int (d + 200 * r + 2000 * n) :: rat) / 2"
    by simp_all
  have k: "float_of_int 1000 = Inr (Finite (of_int 1000))"
    by (rule float_of_int_exact) simp
  have i: "mul_int (JInt r) 100 = Inr (JInt (r * 100))"
    "mul_int (JInt n) 1000 = Inr (JInt (n * 1000))"
    by simp_all
  have a: "mul_float (JInt d) (Finite (1 / 2)) = Inr (Finite (of_int d / 2))"
    by (simp only: mul_float.simps float_of_int_exact [OF b(1)] bnd.simps fmul.simps e
        round_double_half [OF b(1)])
  have ab: "add_float (Finite (of_int d / 2)) (JInt (r * 100))
      = Inr (Finite (of_int (d + 200 * r) / 2))"
    by (simp only: add_float.simps float_of_int_exact [OF b(2)] bnd.simps fadd.simps e
        round_double_half [OF b(3)])
  have c: "mul_int (JFloat (Finite (of_int n / 2))) 1000 = Inr (JFloat (Finite (of_int (n * 500))))"
    by (simp only: mul_int.simps k bnd.simps fmul.simps e round_double_of_int [OF b(4)])
  have abc: "add_float (Finite (of_int (d + 200 * r) / 2)) (JFloat (Finite (of_int (n * 500))))
      = Inr (Finite (of_int (d + 200 * r + 1000 * n) / 2))"
    by (simp only: add_float.simps fadd.simps e round_double_half [OF b(6)])
  show "quality_score_expr (JInt d) (JInt r) (JFloat (Finite (of_int n / 2)))
           = Inr (Finite (of_int (d + 200 * r + 1000 * n) / 2))"
    unfolding quality_score_expr_def
    by (simp only: a bnd.simps i ab c abc)
  have abc': "add_float (Finite (of_int (d + 200 * r) / 2)) (JInt (n * 1000))
      = Inr (Finite (of_int (d + 200 * r + 2000 * n) / 2))"
    by (simp only: add_float.simps float_of_int_exact [OF b(5)] bnd.simps fadd.simps e
        round_double_half [OF b(7)])
  show "quality_score_expr (JInt d) (JInt r) (JInt n)
           = Inr (Finite (of_int (d + 200 * r + 2000 * n) / 2))"
    unfolding quality_score_expr_def
    by (simp only: a bnd.simps i ab abc')
qed

lemma curate_item_score:
  assumes "curate_item (JDict kvs) = Inr (Some movie)"
  shows "\<exists>q. quality_score_expr (or_zero kvs ''downloads'') (or_zero kvs ''num_reviews'')
                (or_zero kvs ''avg_rating'') = Inr (Finite q)
           \<and> field movie ''quality_score'' = Some (Json (JInt (trunc q)))"
proof -
  from assms obtain f score
    where f: "quality_score_expr (or_zero kvs ''downloads'') (or_zero kvs ''num_reviews'')
                (or_zero kvs ''avg_rating'') = Inr f"
      and s: "int_of_float f = Inr score"
      and m: "field movie ''quality_score'' = Some (Json (JInt score))"
    by (auto simp: curate_item_def or_zero_def bnd_eq_Inr Let_def split: if_splits)
  from s obtain q where "f = Finite q" "score = trunc q"
    by (cases f) auto
  with f m show ?thesis
    by blast
qed

lemma trunc_floor_ceiling: "(0 \<le> q \<longrightarrow> trunc q = \<lfloor>q\<rfloor>) \<and> (q \<le> 0 \<longrightarrow> trunc q = \<lceil>q\<rceil>)"
  by (auto simp: trunc_def)

text \<open>
  C1, amended. For a record from which a movie is built, the stored score is the value of
  \<^verbatim>\<open>(downloads * 0.5) + (num_reviews * 100) + (avg_rating * 1000)\<close> in double
  arithmetic, absent values counting as 0, cut toward zero: the floor of a value that is
  not negative, the ceiling of one that is not positive. When downloads and reviews are
  integers and the rating is an integer or a multiple of one half, with downloads, reviews
  and twice the rating at most \<open>2^40\<close> in magnitude, the double arithmetic is exact and
  the score is the exact sum \<open>d * 0.5 + r * 100 + a * 1000\<close> cut toward zero, which is its
  floor when the three values are not negative.
\<close>

theorem quality_score_truncated:
  assumes "curate_item (JDict kvs) = Inr (Some movie)"
  shows "(\<exists>q. quality_score_expr (or_zero kvs ''downloads'') (or_zero kvs ''num_reviews'')
                 (or_zero kvs ''avg_rating'') = Inr (Finite q)
            \<and> field movie ''quality_score'' = Some (Json (JInt (trunc q)))
            \<and> (0 \<le> q \<longrightarrow> trunc q = \<lfloor>q\<rfloor>) \<and> (q \<le> 0 \<longrightarrow> trunc q = \<lceil>q\<rceil>))
       \<and> (\<forall>d r a n.
            or_zero kvs ''downloads'' = JInt d \<and> or_zero kvs ''num_reviews'' = JInt r
          \<and> (or_zero kvs ''avg_rating'' = JFloat (Finite a)
              \<or> (\<exists>m. or_zero kvs ''avg_rating'' = JInt m \<and> a = of_int m))
          \<and> a = of_int n / 2
          \<and> \<bar>d\<bar> \<le> 2 ^ 40 \<and> \<bar>r\<bar> \<le> 2 ^ 40 \<and> \<bar>n\<bar> \<le> 2 ^ 40 \<longrightarrow>
            field movie ''quality_score''
              = Some (Json (JInt (trunc (of_int d * (1 / 2) + of_int r * 100 + a * 1000))))
          \<and> (0 \<le> d \<and> 0 \<le> r \<and> 0 \<le> n \<longrightarrow>
              field movie ''quality_score''
                = Some (Json (JInt \<lfloor>of_int d * (1 / 2) + of_int r * 100 + a * 1000\<rfloor>))))"
proof -
  from curate_item_score [OF assms] obtain q
    where q: "quality_score_expr (or_zero kvs ''downloads'') (or_zero kvs ''num_reviews'')
                 (or_zero kvs ''avg_rating'') = Inr (Finite q)"
      and f: "field movie ''quality_score'' = Some (Json (JInt (trunc q)))"
    by blast
  have exact: "q = of_int d * (1 / 2) + of_int r * 100 + a * 1000"
    if v: "or_zero kvs ''downloads'' = JInt d" "or_zero kvs ''num_reviews'' = JInt r"
      and ra: "or_zero kvs ''avg_rating'' = JFloat (Finite a)
              \<or> (\<exists>m. or_zero kvs ''avg_rating'' = JInt m \<and> a = of_int m)"
      and a: "a = of_int n / 2"
      and b: "\<bar>d\<bar> \<le> 2 ^ 40" "\<bar>r\<bar> \<le> 2 ^ 40" "\<bar>n\<bar> \<le> 2 ^ 40"
    for d r a n
    using ra
  proof
    assume "or_zero kvs ''avg_rating'' = JFloat (Finite a)"
    with q v a quality_score_expr_exact(1) [OF b] show ?thesis
      by simp
  next
    assume "\<exists>m. or_zero kvs ''avg_rating'' = JInt m \<and> a = of_int m"
    then obtain m where m: "or_zero kvs ''avg_rating'' = JInt m" "a = of_int m"
      by blast
    with a have "(of_int n :: rat) = of_int (2 * m)"
      by simp
    then have n: "n = 2 * m"
      by (simp only: of_int_eq_iff)
    with b(3) have "\<bar>m\<bar> \<le> 2 ^ 40"
      by simp
    from quality_score_expr_exact(2) [OF b(1,2) this] q v m show ?thesis
      by simp
  qed
  have "trunc s = \<lfloor>s\<rfloor>"
    if "s = of_int d * (1 / 2) + of_int r * 100 + of_int n / 2 * 1000" "0 \<le> d" "0 \<le> r" "0 \<le> n"
    for s :: rat and d r n :: int
    using that trunc_floor_ceiling [of s] by simp
  with exact f q trunc_floor_ceiling [of q] show ?thesis
    by (intro conjI allI impI exI [of _ q]; (elim conjE)?) metis+
qed

lemma adult_match_no_tags: "adult_match (JList []) = Inr False"
  by (simp add: adult_match_def str_join_def adult_keywords_def lower_def)

theorem quality_score_truncated_witness:
  "item_field
     (curate_item (JDict [(''downloads'', JInt 20000), (''num_reviews'', JInt 30),
        (''avg_rating'', JFloat (Finite (9 / 2)))]))
     ''quality_score''
   = Some (Json (JInt 17500))"
proof -
  let ?kvs = "[(''downloads'', JInt 20000), (''num_reviews'', JInt 30),
        (''avg_rating'', JFloat (Finite (9 / 2)))]"
  have s: "quality_score_expr (JInt 20000) (JInt 30) (JFloat (Finite (9 / 2))) = Inr (Finite 17500)"
    using quality_score_expr_exact(1) [of 20000 30 9] by simp
  have r: "round_double (9 / 2) = Finite (9 / 2)"
    using round_double_half [of 9] by simp
  obtain movie where m: "curate_item (JDict ?kvs) = Inr (Some movie)"
    by (simp add: curate_item_def adult_match_no_tags s r description_field_def
        round_half_even_def)
  note exact = quality_score_truncated [OF m, THEN conjunct2, rule_format, of 20000 30 "9 / 2" 9]
  have "field movie ''quality_score''
      = Some (Json (JInt \<lfloor>of_int 20000 * (1 / 2) + of_int 30 * 100 + (9 / 2) * 1000 :: rat\<rfloor>))"
    using exact by (auto simp: or_zero_def)
  then show ?thesis
    by (simp add: item_field_def m)
qed

text \<open>
  The floor is not what the code takes of a negative sum: a record with \<open>-1\<close> downloads
  and nothing else has the sum \<open>-0.5\<close>, whose floor is \<open>-1\<close>, and gets the score 0.
\<close>

theorem quality_score_floor_counterexample:
  "item_field (curate_item (JDict [(''downloads'', JInt (- 1))])) ''quality_score''
     = Some (Json (JInt 0))
   \<and> \<lfloor>of_int (- 1) * (1 / 2) + of_int 0 * 100 + of_int 0 * 1000 :: rat\<rfloor> = - 1"
proof -
  have s: "quality_score_expr (JInt (- 1)) (JInt 0) (JInt 0) = Inr (Finite (- 1 / 2))"
    using quality_score_expr_exact(2) [of "- 1" 0 0] by simp
  have f: "\<lfloor>- (1 / 2) :: rat\<rfloor> = - 1"
    by (rule floor_unique) simp_all
  have c: "\<lceil>- (1 / 2) :: rat\<rceil> = 0"
    by (rule ceiling_unique) simp_all
  show ?thesis
    by (simp add: item_field_def curate_item_def adult_match_no_tags s description_field_def
        trunc_def f c)
qed

section \<open>Ranking\<close>

lemma quality_keys_zip:
  "\<forall>p\<in>set zs. quality_key (snd p) = Inr (fst p) \<Longrightarrow>
   quality_keys (map snd zs) = Inr (map fst zs)"
  by (induction zs) simp_all

lemma sorted_negated: "sorted (map (\<lambda>p. - fst p) zs) \<longleftrightarrow> sorted_wrt (\<ge>) (map fst zs)"
  for zs :: "(int \<times> 'a) list"
  by (simp add: sorted_map sorted_wrt_map)

text \<open>
  The sort returns the movies by score, highest first, and leaves the movies of any one
  score in the order they had.
\<close>

lemma sort_by_quality_sorted:
  assumes "sort_by_quality ms = Inr rs"
  shows "\<exists>scores. quality_keys rs = Inr scores \<and> sorted_wrt (\<ge>) scores
           \<and> (\<forall>k. filter (\<lambda>m. quality_key m = Inr k) rs
                  = filter (\<lambda>m. quality_key m = Inr k) ms)"
proof -
  from assms obtain ks where ks: "quality_keys ms = Inr ks"
      and rs: "rs = map snd (sort_key (\<lambda>p. - fst p) (zip ks ms))"
    by (auto simp: sort_by_quality_def bnd_eq_Inr)
  define zs where "zs = zip ks ms"
  define zs' where "zs' = sort_key (\<lambda>p. - fst p) zs"
  from quality_keys_all2 [OF ks] have len: "length ks = length ms"
      and key: "\<forall>p\<in>set zs. quality_key (snd p) = Inr (fst p)"
    unfolding zs_def by (auto simp: list_all2_iff)
  then have key': "\<forall>p\<in>set zs'. quality_key (snd p) = Inr (fst p)"
    unfolding zs'_def by simp
  have ms: "ms = map snd zs"
    unfolding zs_def using len by simp
  have rs': "rs = map snd zs'"
    unfolding rs zs'_def zs_def ..
  have 1: "quality_keys rs = Inr (map fst zs')"
    unfolding rs' using key' by (rule quality_keys_zip)
  have 2: "sorted_wrt (\<ge>) (map fst zs')"
    unfolding sorted_negated [symmetric] zs'_def by (rule sorted_sort_key)
  have 3: "filter (\<lambda>m. quality_key m = Inr k) rs = filter (\<lambda>m. quality_key m = Inr k) ms" for k
  proof -
    have a: "filter (\<lambda>p. quality_key (snd p) = Inr k) ys = filter (\<lambda>p. - fst p = - k) ys"
      if "\<forall>p\<in>set ys. quality_key (snd p) = Inr (fst p)" for ys :: "(int \<times> pyval) list"
      using that by (intro filter_cong) auto
    have "filter (\<lambda>m. quality_key m = Inr k) rs
        = map snd (filter (\<lambda>p. - fst p = - k) zs')"
      unfolding rs' filter_map o_def using a [OF key'] by simp
    also have "\<dots> = map snd (filter (\<lambda>p. - fst p = - k) zs)"
      unfolding zs'_def by (simp only: sort_key_stable)
    also have "\<dots> = filter (\<lambda>m. quality_key m = Inr k) ms"
      unfolding ms filter_map o_def using a [OF key] by simp
    finally show ?thesis .
  qed
  from 1 2 3 show ?thesis
    by blast
qed

text \<open>
  C2. When quality curation returns a list for a provider reply, the scores of the list
  fall from one result to the next, the list holds exactly the movies the loop kept from
  the reply, and the movies of any one score stand in the order of their records in the
  reply.
\<close>

theorem curated_sorted_stable:
  assumes "docs_of data = Inr ds"
      and "http_get_json w advancedsearch_url (curate_params mv lmt) = Inr data"
      and "curate_quality_movies w (Some mv) (Some lmt) = PList results"
  shows "\<exists>scores. quality_keys results = Inr scores
           \<and> sorted_wrt (\<ge>) scores
           \<and> (\<forall>i. Suc i < length scores \<longrightarrow> scores ! i \<ge> scores ! Suc i)
           \<and> mset results = mset (concat (map (kept curate_item) ds))
           \<and> (\<forall>k. filter (\<lambda>m. quality_key m = Inr k) results
                  = filter (\<lambda>m. quality_key m = Inr k) (concat (map (kept curate_item) ds)))"
proof -
  from curate_quality_movies_results [OF assms] obtain unsorted
    where u: "curate_loop ds [] = Inr unsorted" "sort_by_quality unsorted = Inr results"
    by blast
  from curate_loop_kept [OF u(1)] have un: "unsorted = concat (map (kept curate_item) ds)"
    by simp
  from sort_by_quality_sorted [OF u(2)] obtain scores
    where s: "quality_keys results = Inr scores" "sorted_wrt (\<ge>) scores"
      "\<forall>k. filter (\<lambda>m. quality_key m = Inr k) results
           = filter (\<lambda>m. quality_key m = Inr k) unsorted"
    by blast
  have "scores ! i \<ge> scores ! Suc i" if "Suc i < length scores" for i
    using sorted_wrt_nth_less [OF s(2), of i "Suc i"] that by simp
  with s sort_by_quality_mset [OF u(2)] show ?thesis
    unfolding un by blast
qed

theorem curated_sorted_stable_witness:
  "\<exists>results.
     curate_quality_movies
       (fixed_world (Inr (JDict [(''response'', JDict [(''docs'', JList
          [JDict [(''identifier'', JStr ''a''), (''downloads'', JInt 10)],
           JDict [(''identifier'', JStr ''b''), (''downloads'', JInt 30)],
           JDict [(''identifier'', JStr ''c''), (''downloads'', JInt 10)]])])]))
          (Inr []) (Inr JNull))
       (Some (JInt 0)) (Some (JInt 20)) = PList results
   \<and> quality_keys results = Inr [15, 5, 5]
   \<and> map (\<lambda>m. field m ''identifier'') results
       = [Some (pstr ''b''), Some (pstr ''a''), Some (pstr ''c'')]
   \<and> (\<exists>scores. quality_keys results = Inr scores \<and> sorted_wrt (\<ge>) scores
        \<and> filter (\<lambda>m. quality_key m = Inr 5) results
          = filter (\<lambda>m. quality_key m = Inr 5) (concat (map (kept curate_item)
              [JDict [(''identifier'', JStr ''a''), (''downloads'', JInt 10)],
               JDict [(''identifier'', JStr ''b''), (''downloads'', JInt 30)],
               JDict [(''identifier'', JStr ''c''), (''downloads'', JInt 10)]])))"
proof -
  let ?ds = "[JDict [(''identifier'', JStr ''a''), (''downloads'', JInt 10)],
           JDict [(''identifier'', JStr ''b''), (''downloads'', JInt 30)],
           JDict [(''identifier'', JStr ''c''), (''downloads'', JInt 10)]]"
  let ?data = "JDict [(''response'', JDict [(''docs'', JList ?ds)])]"
  let ?w = "fixed_world (Inr ?data) (Inr []) (Inr JNull)"
  have s: "quality_score_expr (JInt 10) (JInt 0) (JInt 0) = Inr (Finite 5)"
    "quality_score_expr (JInt 30) (JInt 0) (JInt 0) = Inr (Finite 15)"
    using quality_score_expr_exact(2) [of 10 0 0] quality_score_expr_exact(2) [of 30 0 0]
    by simp_all
  obtain results
    where r: "curate_quality_movies ?w (Some (JInt 0)) (Some (JInt 20)) = PList results"
      and k: "quality_keys results = Inr [15, 5, 5]"
      and i: "map (\<lambda>m. field m ''identifier'') results
         = [Some (pstr ''b''), Some (pstr ''a''), Some (pstr ''c'')]"
    by (simp add: curate_quality_movies_def curate_quality_movies_try_def fixed_world_def
        catch_def curate_item_def adult_match_no_tags s description_field_def
        sort_by_quality_def trunc_def pstr_def)
  have docs: "docs_of ?data = Inr ?ds"
    by (simp add: docs_of_def)
  have g: "http_get_json ?w advancedsearch_url (curate_params (JInt 0) (JInt 20)) = Inr ?data"
    by (simp add: fixed_world_def)
  from curated_sorted_stable [OF docs g r] obtain scores
    where "quality_keys results = Inr scores" and "sorted_wrt (\<ge>) scores"
      and "\<forall>k. filter (\<lambda>m. quality_key m = Inr k) results
             = filter (\<lambda>m. quality_key m = Inr k) (concat (map (kept curate_item) ?ds))"
    by blast
  then have "\<exists>scores. quality_keys results = Inr scores \<and> sorted_wrt (\<ge>) scores
        \<and> filter (\<lambda>m. quality_key m = Inr 5) results
          = filter (\<lambda>m. quality_key m = Inr 5) (concat (map (kept curate_item) ?ds))"
    by (intro exI [of _ scores]) simp
  with r k i show ?thesis
    by (intro exI [of _ results] conjI)
qed

end
